theory Spec2Isabelle
  imports Main
begin

section \<open>The two documentation notebooks as data\<close>

text \<open>
  The sources are two Jupyter notebooks, \<^verbatim>\<open>docs/dynamics and evolution.ipynb\<close> and
  \<^verbatim>\<open>docs/calculating quantities.ipynb\<close>. A notebook file is a JSON document: an object
  with the list of cells, the notebook metadata and the format version. A cell is an
  object with its \<^verbatim>\<open>cell_type\<close> (raw, markdown or code), its \<^verbatim>\<open>source\<close> (a list
  of strings, one per line, each but the last ending in a newline) and, for a code cell,
  the \<^verbatim>\<open>execution_count\<close> and the recorded \<^verbatim>\<open>outputs\<close>.

  The documents are embedded value by value, keys in the order of the file. The text of
  every cell and of every output is a constant of its own (\<open>dyn_7_src\<close> is the source of
  cell 7 of the first notebook, \<open>dyn_7_out\<close> the text of its output), and the cell refers to
  it. A string is the list of its UTF-8 bytes; the two characters outside ASCII that the
  recorded outputs hold are named below. The file of the first notebook ends with one
  more line, which separates it from the next document and is not part of the notebook.
\<close>

datatype json =
    JNum int
  | JStr string
  | JArr "json list"
  | JObj "(string \<times> json) list"

definition full_block :: string where
  \<comment> \<open>U+2588, the bar of the progress display, in UTF-8\<close>
  "full_block = [CHR 0xE2, CHR 0x96, CHR 0x88]"

definition plus_minus :: string where
  \<comment> \<open>U+00B1, printed by the timing display, in UTF-8\<close>
  "plus_minus = [CHR 0xC2, CHR 0xB1]"

subsection \<open>\<^verbatim>\<open>docs/dynamics and evolution.ipynb\<close>\<close>

definition dyn_0_src :: "string list" where
  \<open>dyn_0_src = [
    ''##############\<newline>'',
    ''Time Evolution\<newline>'',
    ''##############\<newline>'',
    ''\<newline>'',
    ''Time evolutions in ``quimb`` are handled by the class :class:`~quimb.evo.Evolution`, which is initialized with a starting state and hamiltonian.\<newline>'',
    ''\<newline>'',
    ''Basic Usage\<newline>'',
    ''~~~~~~~~~~~\<newline>'',
    ''\<newline>'',
    ''Set up the :class:`~quimb.evo.Evolution` object with a initial state and hamiltonian.'']\<close>

definition dyn_cell_0 :: json where
  \<open>dyn_cell_0 = JObj [
    (''cell_type'', JStr ''raw''),
    (''metadata'', JObj [
     (''raw_mimetype'', JStr ''text/restructuredtext'')]),
    (''source'', JArr (map JStr dyn_0_src))]\<close>

definition dyn_1_src :: "string list" where
  \<open>dyn_1_src = [
    ''from quimb import *\<newline>'',
    ''\<newline>'',
    ''p0 = rand_ket(2**10)\<newline>'',
    ''h = ham_heis(10, sparse=True)\<newline>'',
    ''evo = Evolution(p0, h)'']\<close>

definition dyn_cell_1 :: json where
  \<open>dyn_cell_1 = JObj [
    (''cell_type'', JStr ''code''),
    (''execution_count'', JNum 1),
    (''metadata'', JObj []),
    (''outputs'', JArr []),
    (''source'', JArr (map JStr dyn_1_src))]\<close>

definition dyn_2_src :: "string list" where
  \<open>dyn_2_src = [
    ''\<newline>'',
    ''Update it in a single shot to a new time and get the state,'']\<close>

definition dyn_cell_2 :: json where
  \<open>dyn_cell_2 = JObj [
    (''cell_type'', JStr ''markdown''),
    (''metadata'', JObj []),
    (''source'', JArr (map JStr dyn_2_src))]\<close>

definition dyn_3_src :: "string list" where
  \<open>dyn_3_src = [
    ''evo.update_to(1)\<newline>'',
    ''evo.pt'']\<close>

definition dyn_3_out :: "string list" where
  \<open>dyn_3_out = [
    ''qarray([[-0.004895-0.003752j],\<newline>'',
    ''        [-0.023103+0.013373j],\<newline>'',
    ''        [ 0.025707-0.022719j],\<newline>'',
    ''        ...,\<newline>'',
    ''        [-0.018055+0.013348j],\<newline>'',
    ''        [-0.013808+0.000646j],\<newline>'',
    ''        [ 0.007784-0.027032j]])'']\<close>

definition dyn_cell_3 :: json where
  \<open>dyn_cell_3 = JObj [
    (''cell_type'', JStr ''code''),
    (''execution_count'', JNum 2),
    (''metadata'', JObj []),
    (''outputs'', JArr [
     JObj [
      (''data'', JObj [
       (''text/plain'', JArr (map JStr dyn_3_out))]),
      (''execution_count'', JNum 2),
      (''metadata'', JObj []),
      (''output_type'', JStr ''execute_result'')]]),
    (''source'', JArr (map JStr dyn_3_src))]\<close>

definition dyn_4_src :: "string list" where
  \<open>dyn_4_src = [
    ''Lazily generate the state at multiple times:'']\<close>

definition dyn_cell_4 :: json where
  \<open>dyn_cell_4 = JObj [
    (''cell_type'', JStr ''markdown''),
    (''metadata'', JObj []),
    (''source'', JArr (map JStr dyn_4_src))]\<close>

definition dyn_5_src :: "string list" where
  \<open>dyn_5_src = [
    ''for pt in evo.at_times([2, 3, 4]):\<newline>'',
    ''    print(expec(pt, p0))'']\<close>

definition dyn_5_out :: "string list" where
  \<open>dyn_5_out = [
    ''0.0008819837257778465\<newline>'',
    ''0.008018772696880647\<newline>'',
    ''0.007921004468599528\<newline>'']\<close>

definition dyn_cell_5 :: json where
  \<open>dyn_cell_5 = JObj [
    (''cell_type'', JStr ''code''),
    (''execution_count'', JNum 3),
    (''metadata'', JObj []),
    (''outputs'', JArr [
     JObj [
      (''name'', JStr ''stdout''),
      (''output_type'', JStr ''stream''),
      (''text'', JArr (map JStr dyn_5_out))]]),
    (''source'', JArr (map JStr dyn_5_src))]\<close>

definition dyn_6_src :: "string list" where
  \<open>dyn_6_src = [
    ''Methods of Updating\<newline>'',
    ''~~~~~~~~~~~~~~~~~~~\<newline>'',
    ''\<newline>'',
    ''There are three methods of updating the state:\<newline>'',
    ''\<newline>'',
    ''    - ``Evolution(..., method=\'integrate\')``: use definite integration. \<newline>'',
    ''      Get system at each time step, only need action of Hamiltonian on \<newline>'',
    ''      state. Generally efficient. For pure and mixed states. The \<newline>'',
    ''      additional option ``int_small_step={False, True}`` determines \<newline>'',
    ''      whether a low or high order adaptive stepping scheme is used, \<newline>'',
    ''      giving naturally smaller or larger times steps. See \<newline>'',
    ''      :class:`scipy.integrate.ode` for details, ``False`` corresponds \<newline>'',
    ''      to ``"dop853"``, ``True`` to ``"dopri5"``.\<newline>'',
    ''\<newline>'',
    ''    - ``Evolution(..., method=\'solve\')``. Diagonalize the hamiltonian, \<newline>'',
    ''      which once done, allows quickly updating to arbitrary times. \<newline>'',
    ''      Supports pure and mixed states, recomended for small systems.\<newline>'',
    ''\<newline>'',
    ''    -  ``Evolution(..., method=\'expm\')``: compute the evolved state \<newline>'',
    ''       using the action of the matrix exponential in a \'single shot\' \<newline>'',
    ''       style. Only needs action of Hamiltonian, for very large systems \<newline>'',
    ''       can use distributed MPI. Only for pure states.\<newline>'',
    ''\<newline>'',
    ''Computing on the fly\<newline>'',
    ''~~~~~~~~~~~~~~~~~~~~\<newline>'',
    ''\<newline>'',
    ''Sometimes, if integrating, it is best to just query the state at time-steps chosen dynamically by the adaptive scheme. This is achieved using the ``compute`` keyword supplied to ``Evolution``. It can also just be a convenient way to set up calculations as well:'']\<close>

definition dyn_cell_6 :: json where
  \<open>dyn_cell_6 = JObj [
    (''cell_type'', JStr ''raw''),
    (''metadata'', JObj [
     (''raw_mimetype'', JStr ''text/restructuredtext'')]),
    (''source'', JArr (map JStr dyn_6_src))]\<close>

definition dyn_7_src :: "string list" where
  \<open>dyn_7_src = [
    ''p0 = rand_product_state(10)\<newline>'',
    ''h = ham_heis(10, sparse=True)\<newline>'',
    ''\<newline>'',
    ''dims = [2] * 10\<newline>'',
    ''sysa, sysb = (0, 1), (2, 3)\<newline>'',
    ''\<newline>'',
    ''def calc_t_and_logneg(t, pt):\<newline>'',
    ''    ln = logneg_subsys(pt, dims, sysa, sysb)\<newline>'',
    ''    return t, ln\<newline>'',
    ''\<newline>'',
    ''evo = Evolution(p0, h, compute=calc_t_and_logneg, progbar=True)\<newline>'',
    ''evo.update_to(1)\<newline>'',
    ''\<newline>'',
    ''ts, lns = zip(*evo.results)'']\<close>

definition dyn_7_out :: "string list" where
  \<open>dyn_7_out = [
    ''100%|'' @ full_block @ full_block @ full_block @ full_block @ full_block @ full_block @ full_block @ full_block @ full_block @ full_block @ ''| 100/100 [00:00<00:00, 3814.84%/s]\<newline>'']\<close>

definition dyn_cell_7 :: json where
  \<open>dyn_cell_7 = JObj [
    (''cell_type'', JStr ''code''),
    (''execution_count'', JNum 4),
    (''metadata'', JObj []),
    (''outputs'', JArr [
     JObj [
      (''name'', JStr ''stderr''),
      (''output_type'', JStr ''stream''),
      (''text'', JArr (map JStr dyn_7_out))]]),
    (''source'', JArr (map JStr dyn_7_src))]\<close>

definition dyn_8_src :: "string list" where
  \<open>dyn_8_src = [
    ''ts'']\<close>

definition dyn_8_out :: "string list" where
  \<open>dyn_8_out = [
    ''(0.0, 0.26290682760247974, 0.5233369775481265, 0.7900587131899766, 1.0)'']\<close>

definition dyn_cell_8 :: json where
  \<open>dyn_cell_8 = JObj [
    (''cell_type'', JStr ''code''),
    (''execution_count'', JNum 5),
    (''metadata'', JObj []),
    (''outputs'', JArr [
     JObj [
      (''data'', JObj [
       (''text/plain'', JArr (map JStr dyn_8_out))]),
      (''execution_count'', JNum 5),
      (''metadata'', JObj []),
      (''output_type'', JStr ''execute_result'')]]),
    (''source'', JArr (map JStr dyn_8_src))]\<close>

definition dyn_9_src :: "string list" where
  \<open>dyn_9_src = [
    ''lns'']\<close>

definition dyn_9_out :: "string list" where
  \<open>dyn_9_out = [
    ''(0.0,\<newline>'',
    '' 0.2671006185064719,\<newline>'',
    '' 0.47658641897909465,\<newline>'',
    '' 0.6360265342188309,\<newline>'',
    '' 0.7230360577935351)'']\<close>

definition dyn_cell_9 :: json where
  \<open>dyn_cell_9 = JObj [
    (''cell_type'', JStr ''code''),
    (''execution_count'', JNum 6),
    (''metadata'', JObj []),
    (''outputs'', JArr [
     JObj [
      (''data'', JObj [
       (''text/plain'', JArr (map JStr dyn_9_out))]),
      (''execution_count'', JNum 6),
      (''metadata'', JObj []),
      (''output_type'', JStr ''execute_result'')]]),
    (''source'', JArr (map JStr dyn_9_src))]\<close>

definition dyn_10_src :: "string list" where
  \<open>dyn_10_src = [
    ''If a dict of callables is supplied to ``compute``, (each should take two arguments, the time, and the state, as above), ``Evolution.results`` will itself be a dictionary containing the results of each function at each time step, under the respective key. This can be more convenient:'']\<close>

definition dyn_cell_10 :: json where
  \<open>dyn_cell_10 = JObj [
    (''cell_type'', JStr ''raw''),
    (''metadata'', JObj [
     (''raw_mimetype'', JStr ''text/restructuredtext'')]),
    (''source'', JArr (map JStr dyn_10_src))]\<close>

definition dyn_11_src :: "string list" where
  \<open>dyn_11_src = [
    ''def calc_t(t, _):\<newline>'',
    ''    return t\<newline>'',
    ''\<newline>'',
    ''def calc_logneg(_, pt):\<newline>'',
    ''    return logneg_subsys(pt, [2]*10, 0, 1)\<newline>'',
    ''\<newline>'',
    ''evo = Evolution(p0, h, compute={\'t\': calc_t, \'ln\': calc_logneg}, progbar=True)\<newline>'',
    ''evo.update_to(1)'']\<close>

definition dyn_11_out :: "string list" where
  \<open>dyn_11_out = [
    ''100%|'' @ full_block @ full_block @ full_block @ full_block @ full_block @ full_block @ full_block @ full_block @ full_block @ full_block @ ''| 100/100 [00:00<00:00, 19194.14%/s]\<newline>'']\<close>

definition dyn_cell_11 :: json where
  \<open>dyn_cell_11 = JObj [
    (''cell_type'', JStr ''code''),
    (''execution_count'', JNum 7),
    (''metadata'', JObj []),
    (''outputs'', JArr [
     JObj [
      (''name'', JStr ''stderr''),
      (''output_type'', JStr ''stream''),
      (''text'', JArr (map JStr dyn_11_out))]]),
    (''source'', JArr (map JStr dyn_11_src))]\<close>

definition dyn_12_src :: "string list" where
  \<open>dyn_12_src = [
    ''evo.results'']\<close>

definition dyn_12_out :: "string list" where
  \<open>dyn_12_out = [
    ''{\'t\': [0.0, 0.26290682760247974, 0.5233369775481265, 0.7900587131899766, 1.0],\<newline>'',
    '' \'ln\': [0.0, 0.08526629069718968, 0.06419361844053166, 0.0, 0.0]}'']\<close>

definition dyn_cell_12 :: json where
  \<open>dyn_cell_12 = JObj [
    (''cell_type'', JStr ''code''),
    (''execution_count'', JNum 8),
    (''metadata'', JObj []),
    (''outputs'', JArr [
     JObj [
      (''data'', JObj [
       (''text/plain'', JArr (map JStr dyn_12_out))]),
      (''execution_count'', JNum 8),
      (''metadata'', JObj []),
      (''output_type'', JStr ''execute_result'')]]),
    (''source'', JArr (map JStr dyn_12_src))]\<close>

definition dynamics_and_evolution :: json where
  \<open>dynamics_and_evolution = JObj [
    (''cells'', JArr [
      dyn_cell_0, dyn_cell_1, dyn_cell_2, dyn_cell_3, dyn_cell_4,
      dyn_cell_5, dyn_cell_6, dyn_cell_7, dyn_cell_8, dyn_cell_9,
      dyn_cell_10, dyn_cell_11, dyn_cell_12]),
    (''metadata'', JObj [
      (''celltoolbar'', JStr ''Raw Cell Format''),
      (''kernelspec'', JObj [
       (''display_name'', JStr ''Python 3''),
       (''language'', JStr ''python''),
       (''name'', JStr ''python3'')]),
      (''language_info'', JObj [
       (''codemirror_mode'', JObj [
        (''name'', JStr ''ipython''),
        (''version'', JNum 3)]),
       (''file_extension'', JStr ''.py''),
       (''mimetype'', JStr ''text/x-python''),
       (''name'', JStr ''python''),
       (''nbconvert_exporter'', JStr ''python''),
       (''pygments_lexer'', JStr ''ipython3''),
       (''version'', JStr ''3.6.6'')])]),
    (''nbformat'', JNum 4),
    (''nbformat_minor'', JNum 2)]\<close>

subsection \<open>\<^verbatim>\<open>docs/calculating quantities.ipynb\<close>\<close>

definition calc_0_src :: "string list" where
  \<open>calc_0_src = [
    ''######################\<newline>'',
    ''Calculating Quantities\<newline>'',
    ''######################\<newline>'',
    ''\<newline>'',
    ''There are various built-in functions to calculate quantities, not limited to:\<newline>'',
    ''\<newline>'',
    ''- :func:`~quimb.calc.fidelity`\<newline>'',
    ''- :func:`~quimb.calc.purify`\<newline>'',
    ''- :func:`~quimb.calc.dephase`\<newline>'',
    ''- :func:`~quimb.calc.entropy`\<newline>'',
    ''- :func:`~quimb.calc.mutinf`\<newline>'',
    ''- :func:`~quimb.calc.mutinf_subsys`\<newline>'',
    ''- :func:`~quimb.calc.schmidt_gap`\<newline>'',
    ''- :func:`~quimb.calc.tr_sqrt`\<newline>'',
    ''- :func:`~quimb.calc.partial_transpose`\<newline>'',
    ''- :func:`~quimb.calc.logneg`\<newline>'',
    ''- :func:`~quimb.calc.logneg_subsys`\<newline>'',
    ''- :func:`~quimb.calc.negativity`\<newline>'',
    ''- :func:`~quimb.calc.concurrence`\<newline>'',
    ''- :func:`~quimb.calc.one_way_classical_information`\<newline>'',
    ''- :func:`~quimb.calc.quantum_discord`\<newline>'',
    ''- :func:`~quimb.calc.trace_distance`\<newline>'',
    ''- :func:`~quimb.calc.decomp`\<newline>'',
    ''- :func:`~quimb.calc.correlation`\<newline>'',
    ''- :func:`~quimb.calc.pauli_correlations`\<newline>'',
    ''- :func:`~quimb.calc.ent_cross_matrix`\<newline>'',
    ''- :func:`~quimb.calc.is_degenerate`\<newline>'',
    ''- :func:`~quimb.calc.is_eigenvector`\<newline>'',
    ''- :func:`~quimb.calc.page_entropy`\<newline>'',
    ''- :func:`~quimb.calc.heisenberg_energy`\<newline>'',
    ''\<newline>'',
    ''\<newline>'',
    ''Approximate Spectral Functions\<newline>'',
    ''==============================\<newline>'',
    ''\<newline>'',
    ''The module :py:mod:`~quimb.linalg.approx_spectral`, contains a Lanczos method for estimating any quantities of the form ``tr(fn(A))``. Where ``A`` is any operator that implements a dot product with a vector. For example, estimating the trace of the sqrt of a matrix would naievly require diagonalising it:'']\<close>

definition calc_cell_0 :: json where
  \<open>calc_cell_0 = JObj [
    (''cell_type'', JStr ''raw''),
    (''metadata'', JObj [
     (''raw_mimetype'', JStr ''text/restructuredtext'')]),
    (''source'', JArr (map JStr calc_0_src))]\<close>

definition calc_1_src :: "string list" where
  \<open>calc_1_src = [
    ''import quimb as qu\<newline>'',
    ''\<newline>'',
    ''rho = qu.rand_rho(2**12)\<newline>'',
    ''rho_el = qu.eigvalsh(rho)\<newline>'',
    ''sum(rho_el ** 0.5)'']\<close>

definition calc_1_out :: "string list" where
  \<open>calc_1_out = [
    ''54.32407060007722'']\<close>

definition calc_cell_1 :: json where
  \<open>calc_cell_1 = JObj [
    (''cell_type'', JStr ''code''),
    (''execution_count'', JNum 1),
    (''metadata'', JObj []),
    (''outputs'', JArr [
     JObj [
      (''data'', JObj [
       (''text/plain'', JArr (map JStr calc_1_out))]),
      (''execution_count'', JNum 1),
      (''metadata'', JObj []),
      (''output_type'', JStr ''execute_result'')]]),
    (''source'', JArr (map JStr calc_1_src))]\<close>

definition calc_2_src :: "string list" where
  \<open>calc_2_src = [
    ''qu.tr_sqrt_approx(rho)'']\<close>

definition calc_2_out :: "string list" where
  \<open>calc_2_out = [
    ''54.52284527680732'']\<close>

definition calc_cell_2 :: json where
  \<open>calc_cell_2 = JObj [
    (''cell_type'', JStr ''code''),
    (''execution_count'', JNum 2),
    (''metadata'', JObj []),
    (''outputs'', JArr [
     JObj [
      (''data'', JObj [
       (''text/plain'', JArr (map JStr calc_2_out))]),
      (''execution_count'', JNum 2),
      (''metadata'', JObj []),
      (''output_type'', JStr ''execute_result'')]]),
    (''source'', JArr (map JStr calc_2_src))]\<close>

definition calc_3_src :: "string list" where
  \<open>calc_3_src = [
    ''Diagonalization has a cost of ``O(n^3)``, which is essentially reduced \<newline>'',
    ''to ``O(k * n^2)`` for this stochastic method. For a general function \<newline>'',
    '':func:`~quimb.linalg.approx_spectral.approx_spectral_function` can be used.\<newline>'',
    ''\<newline>'',
    ''\<newline>'',
    ''However, the real advantage occurs when the full matrix does not need to be fully represented, e.g. in the case of \'partial trace states\'. One can then calculate quantities for subsystems that would not be possible to explicitly represent.\<newline>'',
    ''\<newline>'',
    ''For example, the partial trace, followed by partial transpose, followed by vector multiplication can be \'lazily\' evaluated as a tensor contraction (see :py:func:`~quimb.linalg.approx_spectral.lazy_ptr_ppt_dot`). In this way the logarithmic negativity of subsytems can be efficiently calculated:'']\<close>

definition calc_cell_3 :: json where
  \<open>calc_cell_3 = JObj [
    (''cell_type'', JStr ''raw''),
    (''metadata'', JObj [
     (''raw_mimetype'', JStr ''text/restructuredtext'')]),
    (''source'', JArr (map JStr calc_3_src))]\<close>

definition calc_4_src :: "string list" where
  \<open>calc_4_src = [
    ''psi = qu.rand_ket(2**20)\<newline>'',
    ''dims = [2**8, 2**4, 2**8]\<newline>'',
    ''qu.logneg_subsys_approx(psi, dims, sysa=0, sysb=2)'']\<close>

definition calc_4_out :: "string list" where
  \<open>calc_4_out = [
    ''5.737062140763265'']\<close>

definition calc_cell_4 :: json where
  \<open>calc_cell_4 = JObj [
    (''cell_type'', JStr ''code''),
    (''execution_count'', JNum 3),
    (''metadata'', JObj []),
    (''outputs'', JArr [
     JObj [
      (''data'', JObj [
       (''text/plain'', JArr (map JStr calc_4_out))]),
      (''execution_count'', JNum 3),
      (''metadata'', JObj []),
      (''output_type'', JStr ''execute_result'')]]),
    (''source'', JArr (map JStr calc_4_src))]\<close>

definition calc_5_src :: "string list" where
  \<open>calc_5_src = [
    ''Under the hood, this method makes use of :mod:`quimb.tensor` functionality, which allows `various tensor contraction backends <http://optimized-einsum.readthedocs.io/en/latest/backends.html>`_ to be used (see :func:`~quimb.tensor.tensor_core.set_tensor_linop_backend`). These types of computation are particularly suited to the GPU and therefore if `cupy <https://cupy.chainer.org>`_ is installed it will be used automatically:'']\<close>

definition calc_cell_5 :: json where
  \<open>calc_cell_5 = JObj [
    (''cell_type'', JStr ''raw''),
    (''metadata'', JObj [
     (''raw_mimetype'', JStr ''text/restructuredtext'')]),
    (''source'', JArr (map JStr calc_5_src))]\<close>

definition calc_6_src :: "string list" where
  \<open>calc_6_src = [
    ''%timeit qu.logneg_subsys_approx(psi, dims, sysa=0, sysb=2, backend=\'numpy\')'']\<close>

definition calc_6_out :: "string list" where
  \<open>calc_6_out = [
    ''799 ms '' @ plus_minus @ '' 118 ms per loop (mean '' @ plus_minus @ '' std. dev. of 7 runs, 1 loop each)\<newline>'']\<close>

definition calc_cell_6 :: json where
  \<open>calc_cell_6 = JObj [
    (''cell_type'', JStr ''code''),
    (''execution_count'', JNum 4),
    (''metadata'', JObj []),
    (''outputs'', JArr [
     JObj [
      (''name'', JStr ''stdout''),
      (''output_type'', JStr ''stream''),
      (''text'', JArr (map JStr calc_6_out))]]),
    (''source'', JArr (map JStr calc_6_src))]\<close>

definition calc_7_src :: "string list" where
  \<open>calc_7_src = [
    ''%timeit qu.logneg_subsys_approx(psi, dims, sysa=0, sysb=2, backend=\'cupy\')'']\<close>

definition calc_7_out :: "string list" where
  \<open>calc_7_out = [
    ''89.7 ms '' @ plus_minus @ '' 2.87 ms per loop (mean '' @ plus_minus @ '' std. dev. of 7 runs, 10 loops each)\<newline>'']\<close>

definition calc_cell_7 :: json where
  \<open>calc_cell_7 = JObj [
    (''cell_type'', JStr ''code''),
    (''execution_count'', JNum 5),
    (''metadata'', JObj []),
    (''outputs'', JArr [
     JObj [
      (''name'', JStr ''stdout''),
      (''output_type'', JStr ''stream''),
      (''text'', JArr (map JStr calc_7_out))]]),
    (''source'', JArr (map JStr calc_7_src))]\<close>

definition calculating_quantities :: json where
  \<open>calculating_quantities = JObj [
    (''cells'', JArr [
      calc_cell_0, calc_cell_1, calc_cell_2, calc_cell_3, calc_cell_4,
      calc_cell_5, calc_cell_6, calc_cell_7]),
    (''metadata'', JObj [
      (''celltoolbar'', JStr ''Raw Cell Format''),
      (''kernelspec'', JObj [
       (''display_name'', JStr ''Python 3''),
       (''language'', JStr ''python''),
       (''name'', JStr ''python3'')]),
      (''language_info'', JObj [
       (''codemirror_mode'', JObj [
        (''name'', JStr ''ipython''),
        (''version'', JNum 3)]),
       (''file_extension'', JStr ''.py''),
       (''mimetype'', JStr ''text/x-python''),
       (''name'', JStr ''python''),
       (''nbconvert_exporter'', JStr ''python''),
       (''pygments_lexer'', JStr ''ipython3''),
       (''version'', JStr ''3.6.6'')])]),
    (''nbformat'', JNum 4),
    (''nbformat_minor'', JNum 2)]\<close>

section \<open>Reading a notebook\<close>

text \<open>
  \<open>json_lines\<close> counts the lines of the file as the notebook format writes it (indented
  JSON: every scalar, every key with a scalar or an empty container, and every opening
  and closing bracket of a non-empty container takes one line).
\<close>

fun json_lines :: "json \<Rightarrow> nat" where
  "json_lines (JNum n) = 1"
| "json_lines (JStr s) = 1"
| "json_lines (JArr xs) = (if xs = [] then 1 else 2 + sum_list (map json_lines xs))"
| "json_lines (JObj kvs) =
     (if kvs = [] then 1 else 2 + sum_list (map (\<lambda>(k, v). json_lines v) kvs))"

fun jfield :: "string \<Rightarrow> json \<Rightarrow> json option" where
  "jfield k (JObj kvs) = map_of kvs k"
| "jfield k _ = None"

fun jitems :: "json \<Rightarrow> json list" where
  "jitems (JArr xs) = xs"
| "jitems _ = []"

fun jstring :: "json \<Rightarrow> string" where
  "jstring (JStr s) = s"
| "jstring _ = []"

definition jlines :: "string \<Rightarrow> json \<Rightarrow> string list" where
  "jlines k c = (case jfield k c of Some v \<Rightarrow> map jstring (jitems v) | None \<Rightarrow> [])"

definition cells :: "json \<Rightarrow> json list" where
  "cells nb = (case jfield ''cells'' nb of Some v \<Rightarrow> jitems v | None \<Rightarrow> [])"

definition cell_type :: "json \<Rightarrow> string" where
  "cell_type c = (case jfield ''cell_type'' c of Some v \<Rightarrow> jstring v | None \<Rightarrow> [])"

definition source_lines :: "json \<Rightarrow> string list" where
  "source_lines c = jlines ''source'' c"

definition outputs :: "json \<Rightarrow> json list" where
  "outputs c = (case jfield ''outputs'' c of Some v \<Rightarrow> jitems v | None \<Rightarrow> [])"

definition output_type :: "json \<Rightarrow> string" where
  "output_type out = (case jfield ''output_type'' out of Some v \<Rightarrow> jstring v | None \<Rightarrow> [])"

text \<open>
  The text of a recorded output: what a stream printed, or the plain-text form of a
  displayed result.
\<close>

definition output_lines :: "json \<Rightarrow> string list" where
  "output_lines out =
     (if output_type out = ''stream'' then jlines ''text'' out
      else case jfield ''data'' out of
             Some d \<Rightarrow> jlines ''text/plain'' d
           | None \<Rightarrow> [])"

definition code_cells :: "json \<Rightarrow> json list" where
  "code_cells nb = filter (\<lambda>c. cell_type c = ''code'') (cells nb)"

definition prose_cells :: "json \<Rightarrow> json list" where
  "prose_cells nb = filter (\<lambda>c. cell_type c \<noteq> ''code'') (cells nb)"

text \<open>
  The blocks of text of a notebook, in the order of the file: for every cell its source,
  then the text of each of its outputs. \<open>code_blocks\<close> are the sources of the code cells,
  \<open>prose_blocks\<close> those of the raw and markdown cells, \<open>output_blocks\<close> the recorded
  outputs.
\<close>

definition cell_blocks :: "json \<Rightarrow> string list list" where
  "cell_blocks c = source_lines c # map output_lines (outputs c)"

definition text_blocks :: "json \<Rightarrow> string list list" where
  "text_blocks nb = concat (map cell_blocks (cells nb))"

definition code_blocks :: "json \<Rightarrow> string list list" where
  "code_blocks nb = map source_lines (code_cells nb)"

definition prose_blocks :: "json \<Rightarrow> string list list" where
  "prose_blocks nb = map source_lines (prose_cells nb)"

definition output_blocks :: "json \<Rightarrow> string list list" where
  "output_blocks nb = concat (map (\<lambda>c. map output_lines (outputs c)) (cells nb))"

definition output_types :: "json \<Rightarrow> string list" where
  "output_types nb = concat (map (\<lambda>c. map output_type (outputs c)) (cells nb))"

section \<open>Searching the text\<close>

text \<open>
  Characters are compared bit by bit, a string is searched position by position, and a
  list of blocks line by line. The functions stop at the first difference or the first
  match.
\<close>

fun same_char :: "char \<Rightarrow> char \<Rightarrow> bool" where
  "same_char (Char a0 a1 a2 a3 a4 a5 a6 a7) (Char b0 b1 b2 b3 b4 b5 b6 b7) =
     (if a0 = b0 then if a1 = b1 then if a2 = b2 then if a3 = b3 then
      if a4 = b4 then if a5 = b5 then if a6 = b6 then a7 = b7
      else False else False else False else False else False else False else False)"

fun starts_with :: "string \<Rightarrow> string \<Rightarrow> bool" where
  "starts_with [] s = True"
| "starts_with (p # ps) [] = False"
| "starts_with (p # ps) (c # cs) = (if same_char p c then starts_with ps cs else False)"

fun occurs_in :: "string \<Rightarrow> string \<Rightarrow> bool" where
  "occurs_in p [] = (p = [])"
| "occurs_in p (c # cs) = (if starts_with p (c # cs) then True else occurs_in p cs)"

fun any_line :: "(string \<Rightarrow> bool) \<Rightarrow> string list list \<Rightarrow> bool" where
  "any_line P [] = False"
| "any_line P ([] # bs) = any_line P bs"
| "any_line P ((l # ls) # bs) = (if P l then True else any_line P (ls # bs))"

definition mentions :: "string \<Rightarrow> json \<Rightarrow> bool" where
  "mentions p nb = any_line (occurs_in p) (text_blocks nb)"

definition code_mentions :: "string \<Rightarrow> json \<Rightarrow> bool" where
  "code_mentions p nb = any_line (occurs_in p) (code_blocks nb)"

definition prose_mentions :: "string \<Rightarrow> json \<Rightarrow> bool" where
  "prose_mentions p nb = any_line (occurs_in p) (prose_blocks nb)"

text \<open>
  A search that ignores the case of letters: the pattern is written in lower case, and
  a character of the text matches a character of the pattern when it is that character
  or its upper-case form.
\<close>

definition upper :: "char \<Rightarrow> char" where
  "upper c =
     (case map_of (zip ''abcdefghijklmnopqrstuvwxyz'' ''ABCDEFGHIJKLMNOPQRSTUVWXYZ'') c of
        Some d \<Rightarrow> d
      | None \<Rightarrow> c)"

definition both_cases :: "string \<Rightarrow> (char \<times> char) list" where
  "both_cases p = map (\<lambda>c. (c, upper c)) p"

fun starts_with_either :: "(char \<times> char) list \<Rightarrow> string \<Rightarrow> bool" where
  "starts_with_either [] s = True"
| "starts_with_either (p # ps) [] = False"
| "starts_with_either ((a, b) # ps) (c # cs) =
     (if same_char a c then starts_with_either ps cs
      else if same_char b c then starts_with_either ps cs
      else False)"

fun occurs_either :: "(char \<times> char) list \<Rightarrow> string \<Rightarrow> bool" where
  "occurs_either p [] = (p = [])"
| "occurs_either p (c # cs) =
     (if starts_with_either p (c # cs) then True else occurs_either p cs)"

definition mentions_ci :: "string \<Rightarrow> json \<Rightarrow> bool" where
  "mentions_ci p nb = any_line (occurs_either (both_cases p)) (text_blocks nb)"


text \<open>
  \<open>collect f\<close> gathers what \<open>f\<close> finds on each line of the blocks, \<open>select P\<close> keeps the
  lines on which \<open>P\<close> holds.
\<close>

fun collect :: "(string \<Rightarrow> 'a list) \<Rightarrow> string list list \<Rightarrow> 'a list" where
  "collect f [] = []"
| "collect f ([] # bs) = collect f bs"
| "collect f ((l # ls) # bs) = f l @ collect f (ls # bs)"

fun select :: "(string \<Rightarrow> bool) \<Rightarrow> string list list \<Rightarrow> string list" where
  "select P [] = []"
| "select P ([] # bs) = select P bs"
| "select P ((l # ls) # bs) = (if P l then l # select P (ls # bs) else select P (ls # bs))"

section \<open>Paragraphs of the prose\<close>

text \<open>
  The prose cells are reStructuredText and markdown: a paragraph (or a list item) is a
  run of lines that are not blank. The text of a paragraph is its lines joined, with every
  run of white space (indentation and line breaks included) read as one space, and none
  at the start.
\<close>

definition is_space :: "char \<Rightarrow> bool" where
  "is_space c =
     (if same_char c CHR '' '' then True
      else if same_char c CHR 0x0A then True
      else same_char c CHR 0x09)"

fun blank :: "string \<Rightarrow> bool" where
  "blank [] = True"
| "blank (c # cs) = (if is_space c then blank cs else False)"

fun group_lines :: "string list \<Rightarrow> string list list" where
  "group_lines [] = [[]]"
| "group_lines (l # ls) =
     (if blank l then [] # group_lines ls
      else case group_lines ls of
             p # ps \<Rightarrow> (l # p) # ps
           | [] \<Rightarrow> [[l]])"

fun squash_lines :: "bool \<Rightarrow> string list \<Rightarrow> string" where
  "squash_lines sp [] = []"
| "squash_lines sp ([] # ls) = squash_lines sp ls"
| "squash_lines sp ((c # cs) # ls) =
     (if is_space c
      then (if sp then squash_lines True (cs # ls) else CHR '' '' # squash_lines True (cs # ls))
      else c # squash_lines False (cs # ls))"

definition paragraphs :: "string list \<Rightarrow> string list" where
  "paragraphs ls = map (squash_lines True) (filter (\<lambda>p. p \<noteq> []) (group_lines ls))"

definition prose_paragraphs :: "json \<Rightarrow> string list" where
  "prose_paragraphs nb = concat (map paragraphs (prose_blocks nb))"

definition paragraphs_with :: "string \<Rightarrow> json \<Rightarrow> string list" where
  "paragraphs_with p nb = filter (occurs_in p) (prose_paragraphs nb)"

definition method_paragraphs :: "json \<Rightarrow> string \<Rightarrow> string list" where
  \<comment> \<open>the paragraphs that describe \<^verbatim>\<open>method='m'\<close>\<close>
  "method_paragraphs nb m = paragraphs_with (''method='' @ [CHR 0x27] @ m @ [CHR 0x27]) nb"

section \<open>Values, names and calls in the text\<close>

text \<open>
  \<open>after p s\<close> is what follows the first occurrence of \<open>p\<close> in \<open>s\<close>, \<open>upto d s\<close> what
  stands before the first \<open>d\<close>, and \<open>values_after p d s\<close> lists, for every occurrence of
  \<open>p\<close>, the text between it and the next \<open>d\<close>.
\<close>

fun drop_prefix :: "string \<Rightarrow> string \<Rightarrow> string" where
  "drop_prefix [] s = s"
| "drop_prefix (p # ps) [] = []"
| "drop_prefix (p # ps) (c # cs) = drop_prefix ps cs"

fun after :: "string \<Rightarrow> string \<Rightarrow> string option" where
  "after p [] = (if p = [] then Some [] else None)"
| "after p (c # cs) =
     (if starts_with p (c # cs) then Some (drop_prefix p (c # cs)) else after p cs)"

fun upto :: "char \<Rightarrow> string \<Rightarrow> string" where
  "upto d [] = []"
| "upto d (c # cs) = (if same_char d c then [] else c # upto d cs)"

definition quoted_after :: "string \<Rightarrow> string \<Rightarrow> string" where
  \<comment> \<open>the text between \<open>p\<close> and the next double quote\<close>
  "quoted_after p s = (case after p s of Some r \<Rightarrow> upto CHR 0x22 r | None \<Rightarrow> [])"

fun values_after :: "string \<Rightarrow> char \<Rightarrow> string \<Rightarrow> string list" where
  "values_after p d [] = []"
| "values_after p d (c # cs) =
     (if starts_with p (c # cs)
      then upto d (drop_prefix p (c # cs)) # values_after p d cs
      else values_after p d cs)"

text \<open>
  The values given to the keyword \<open>method\<close> anywhere in a notebook, written
  \<^verbatim>\<open>method='...'\<close>.
\<close>

definition documented_methods :: "json \<Rightarrow> string list" where
  "documented_methods nb = collect (values_after (''method='' @ [CHR 0x27]) CHR 0x27) (text_blocks nb)"

text \<open>
  The names a line of Python calls: a name is a run of letters, digits, underscores and
  dots, and it is called where an opening parenthesis follows it directly. The header of
  a \<^verbatim>\<open>def\<close> statement defines its name instead of calling it. (The code cells hold no
  string or comment with a parenthesis, so the lines need no further parsing.)
\<close>

fun is_one_of :: "string \<Rightarrow> char \<Rightarrow> bool" where
  "is_one_of [] c = False"
| "is_one_of (x # xs) c = (if same_char x c then True else is_one_of xs c)"

definition ident_char :: "char \<Rightarrow> bool" where
  "ident_char c =
     is_one_of ''abcdefghijklmnopqrstuvwxyz_.ABCDEFGHIJKLMNOPQRSTUVWXYZ0123456789'' c"

fun before_parens :: "string \<Rightarrow> string \<Rightarrow> string list" where
  \<comment> \<open>for every opening parenthesis, the text before it back to the previous one, reversed\<close>
  "before_parens acc [] = []"
| "before_parens acc (c # cs) =
     (if same_char c CHR ''('' then acc # before_parens [] cs
      else before_parens (c # acc) cs)"

fun take_ident :: "string \<Rightarrow> string" where
  "take_ident [] = []"
| "take_ident (c # cs) = (if ident_char c then c # take_ident cs else [])"

definition paren_names :: "string \<Rightarrow> string list" where
  "paren_names l =
     filter (\<lambda>n. n \<noteq> []) (map (\<lambda>seg. rev (take_ident seg)) (before_parens [] l))"

fun starts_stmt :: "string \<Rightarrow> string \<Rightarrow> bool" where
  \<comment> \<open>the statement on the line, after its indentation, starts with the keyword\<close>
  "starts_stmt kw [] = False"
| "starts_stmt kw (c # cs) =
     (if is_space c then starts_stmt kw cs else starts_with kw (c # cs))"

definition def_names :: "string \<Rightarrow> string list" where
  "def_names l =
     (if starts_stmt ''def '' l then (case paren_names l of [] \<Rightarrow> [] | n # ns \<Rightarrow> [n]) else [])"

definition call_names :: "string \<Rightarrow> string list" where
  "call_names l = (if starts_stmt ''def '' l then tl (paren_names l) else paren_names l)"

definition defined :: "json \<Rightarrow> string list" where
  "defined nb = collect def_names (code_blocks nb)"

definition calls :: "json \<Rightarrow> string list" where
  "calls nb = collect call_names (code_blocks nb)"

definition class_statements :: "json \<Rightarrow> string list" where
  "class_statements nb = collect (\<lambda>l. if starts_stmt ''class '' l then [l] else []) (code_blocks nb)"

definition lines_with :: "string \<Rightarrow> json \<Rightarrow> string list" where
  "lines_with p nb = select (occurs_in p) (text_blocks nb)"

definition lines_with_ci :: "string \<Rightarrow> json \<Rightarrow> string list" where
  "lines_with_ci p nb = select (occurs_either (both_cases p)) (text_blocks nb)"

definition words_found :: "string list \<Rightarrow> json \<Rightarrow> string list" where
  \<comment> \<open>the words of a vocabulary (in lower case) that occur in the notebook, in any case\<close>
  "words_found ws nb = filter (\<lambda>w. mentions_ci w nb) ws"


section \<open>The words of the specification\<close>

text \<open>
  The calls that the specification names as the externally visible surface: an evolution
  object constructed from a state and a Hamiltonian, advanced to a target time, and a
  spectral-estimation function (the callbacks are an argument of the constructor, the
  dimension list and the backend arguments of the estimator).
\<close>

definition spec_enumerated_calls :: "string list" where
  "spec_enumerated_calls = [''Evolution'', ''evo.update_to'', ''qu.logneg_subsys_approx'']"

text \<open>
  The words with which a text speaks of failure and of recovery from it, and those with
  which it speaks of scheduling, suspension and cancellation (stems, in lower case; the
  word ``order'' is looked for on its own).
\<close>

definition error_vocabulary :: "string list" where
  "error_vocabulary =
     [''error'', ''except'', ''rais'', ''fail'', ''recover'', ''traceback'', ''invalid'',
      ''warn'', ''abort'', ''retry'']"

definition scheduling_vocabulary :: "string list" where
  "scheduling_vocabulary =
     [''schedul'', ''suspen'', ''cancel'', ''interrupt'', ''preempt'']"


section \<open>The callbacks the notebook defines\<close>

text \<open>
  The only functions defined in the sources are three callbacks of the notebook on time
  evolution, each taking the time and the state:
  \<^verbatim>\<open>
  def calc_t_and_logneg(t, pt):
      ln = logneg_subsys(pt, dims, sysa, sysb)
      return t, ln

  def calc_t(t, _):
      return t

  def calc_logneg(_, pt):
      return logneg_subsys(pt, [2]*10, 0, 1)
  \<close>
  \<^verbatim>\<open>logneg_subsys\<close> is a function of the library, which the sources do not hold: it is a
  parameter here. \<^verbatim>\<open>dims\<close>, \<^verbatim>\<open>sysa\<close> and \<^verbatim>\<open>sysb\<close> are the globals of the cell,
  \<^verbatim>\<open>[2] * 10\<close>, \<^verbatim>\<open>(0, 1)\<close> and \<^verbatim>\<open>(2, 3)\<close>. A subsystem is given as one site (\<^verbatim>\<open>0\<close>) or
  as a tuple of sites (\<^verbatim>\<open>(0, 1)\<close>).

  The cell of the first callback ends with \<^verbatim>\<open>ts, lns = zip(*evo.results)\<close>, which takes
  the list of pairs apart into the times and the values, and raises \<^verbatim>\<open>ValueError\<close> when
  the list is empty (there are no two values to unpack).
\<close>

datatype subsystem = Site nat | Sites "nat list"

definition dims :: "nat list" where
  "dims = replicate 10 2"

definition sysa :: subsystem where
  "sysa = Sites [0, 1]"

definition sysb :: subsystem where
  "sysb = Sites [2, 3]"

definition calc_t_and_logneg ::
  "('s \<Rightarrow> nat list \<Rightarrow> subsystem \<Rightarrow> subsystem \<Rightarrow> 'r) \<Rightarrow> 't \<Rightarrow> 's \<Rightarrow> 't \<times> 'r" where
  "calc_t_and_logneg logneg_subsys t pt = (let ln = logneg_subsys pt dims sysa sysb in (t, ln))"

definition calc_t :: "'t \<Rightarrow> 's \<Rightarrow> 't" where
  "calc_t t pt = t"

definition calc_logneg ::
  "('s \<Rightarrow> nat list \<Rightarrow> subsystem \<Rightarrow> subsystem \<Rightarrow> 'r) \<Rightarrow> 't \<Rightarrow> 's \<Rightarrow> 'r" where
  "calc_logneg logneg_subsys t pt = logneg_subsys pt (replicate 10 2) (Site 0) (Site 1)"

datatype py_error = ValueError

fun zip_star :: "('a \<times> 'b) list \<Rightarrow> py_error + 'a list \<times> 'b list" where
  \<comment> \<open>\<^verbatim>\<open>ts, lns = zip(*rs)\<close> for a list of pairs: with no pair there is nothing to unpack\<close>
  "zip_star [] = Inl ValueError"
| "zip_star (r # rs) = Inr (map fst (r # rs), map snd (r # rs))"

section \<open>The documented behaviour of Evolution\<close>

text \<open>
  Modelled from the spec: the class \<^verbatim>\<open>Evolution\<close> (\<^verbatim>\<open>quimb/evo.py\<close>) is not among the
  sources; only calls of it and its description in the notebook on time evolution are.
  The specification document says nothing of its behaviour, so the model follows the
  words of the notebook, which is the documentation of the class: ``This is achieved
  using the \<^verbatim>\<open>compute\<close> keyword supplied to \<^verbatim>\<open>Evolution\<close>'', and ``If a dict of callables
  is supplied to \<^verbatim>\<open>compute\<close>, (each should take two arguments, the time, and the state, as
  above), \<^verbatim>\<open>Evolution.results\<close> will itself be a dictionary containing the results of
  each function at each time step, under the respective key''.

  The argument \<^verbatim>\<open>compute\<close> is one callable of the time and the state, or a dict of such
  callables (the list of its items, every key once); the results are a list, or a
  dictionary of lists.
\<close>

datatype ('t, 's, 'r) compute =
    Callable "'t \<Rightarrow> 's \<Rightarrow> 'r"
  | CallableDict "(string \<times> ('t \<Rightarrow> 's \<Rightarrow> 'r)) list"

datatype 'r results =
    ResultList "'r list"
  | ResultDict "(string \<times> 'r list) list"

text \<open>
  Modelled from the spec: how \<^verbatim>\<open>Evolution\<close> fills the results is not among the sources.
  The integrator, and so the time steps it chooses, are not either: the steps that the
  updates visit are a parameter, the list of the times and states in the order visited.
  The results are kept as the state that every step extends: a list that grows by the
  value of the callable, or a dictionary in which, for every item of the dict of
  callables, the list under its key grows by the value of its callable.
\<close>

fun init_results :: "('t, 's, 'r) compute \<Rightarrow> 'r results" where
  "init_results (Callable f) = ResultList []"
| "init_results (CallableDict fs) = ResultDict (map (\<lambda>(k, f). (k, [])) fs)"

definition append_under :: "string \<Rightarrow> 'r \<Rightarrow> (string \<times> 'r list) list \<Rightarrow> (string \<times> 'r list) list" where
  \<comment> \<open>\<^verbatim>\<open>results[k].append(v)\<close>\<close>
  "append_under k v rs = map (\<lambda>(k', vs). if k' = k then (k', vs @ [v]) else (k', vs)) rs"

fun step_callback :: "('t, 's, 'r) compute \<Rightarrow> 't \<Rightarrow> 's \<Rightarrow> 'r results \<Rightarrow> 'r results" where
  "step_callback (Callable f) t pt (ResultList rs) = ResultList (rs @ [f t pt])"
| "step_callback (CallableDict fs) t pt (ResultDict rs) =
     ResultDict (fold (\<lambda>(k, f) rs. append_under k (f t pt) rs) fs rs)"
| "step_callback c t pt r = r"

fun update_results :: "('t, 's, 'r) compute \<Rightarrow> ('t \<times> 's) list \<Rightarrow> 'r results \<Rightarrow> 'r results" where
  "update_results c [] r = r"
| "update_results c ((t, pt) # steps) r = update_results c steps (step_callback c t pt r)"

definition evolution_results :: "('t, 's, 'r) compute \<Rightarrow> ('t \<times> 's) list \<Rightarrow> 'r results" where
  \<comment> \<open>\<^verbatim>\<open>Evolution(p0, h, compute=c).results\<close> after the updates have visited \<open>steps\<close>\<close>
  "evolution_results c steps = update_results c steps (init_results c)"

text \<open>
  What the documentation promises of the results, in the terms of the model: the values
  of one callable, one for each time step; the keys of a dictionary of results; and the
  list under a key.
\<close>

definition at_each_step :: "('t \<Rightarrow> 's \<Rightarrow> 'r) \<Rightarrow> ('t \<times> 's) list \<Rightarrow> 'r list" where
  "at_each_step f steps = map (\<lambda>(t, pt). f t pt) steps"

fun result_keys :: "'r results \<Rightarrow> string list" where
  "result_keys (ResultDict rs) = map fst rs"
| "result_keys (ResultList rs) = []"

fun result_under :: "'r results \<Rightarrow> string \<Rightarrow> 'r list option" where
  "result_under (ResultDict rs) k = map_of rs k"
| "result_under (ResultList rs) k = None"

text \<open>
  Modelled from the spec: which kinds of state a method of \<^verbatim>\<open>Evolution\<close> accepts is
  decided by code that is not among the sources. The kinds are read off the paragraph
  that the notebook gives to the method, which says ``For pure and mixed states'',
  ``Supports pure and mixed states'' or ``Only for pure states''.
\<close>

datatype update_method = Integrate | Solve | Expm

fun method_name :: "update_method \<Rightarrow> string" where
  "method_name Integrate = ''integrate''"
| "method_name Solve = ''solve''"
| "method_name Expm = ''expm''"

datatype state_kind = Pure | Mixed

definition method_doc :: "update_method \<Rightarrow> string list" where
  "method_doc m = method_paragraphs dynamics_and_evolution (method_name m)"

definition states_named :: "string \<Rightarrow> state_kind list" where
  "states_named p =
     (if occurs_in ''pure and mixed states'' p then [Pure, Mixed]
      else if occurs_in ''Only for pure states'' p then [Pure]
      else [])"

definition supported_states :: "update_method \<Rightarrow> state_kind list" where
  "supported_states m = concat (map states_named (method_doc m))"

definition supports :: "update_method \<Rightarrow> state_kind \<Rightarrow> bool" where
  "supports m k = (k \<in> set (supported_states m))"




section \<open>The search functions meet their descriptions\<close>

text \<open>
  The functions above are written to be evaluated. Here is what they compute, in the
  terms of the list library: \<open>starts_with\<close> is the prefix test, \<open>occurs_in\<close> the test
  for a contiguous part, searching the blocks is searching their lines, and the search
  that ignores case accepts a part of the text whose characters are those of the pattern
  or their upper-case forms.
\<close>

lemma same_char_eq: "same_char a b = (a = b)"
  by (cases a; cases b) auto

lemma starts_with_prefix: "starts_with p s = (\<exists>t. s = p @ t)"
  by (induction p s rule: starts_with.induct) (auto simp: same_char_eq)

lemma somewhere_Cons:
  "(\<exists>u w v. c # cs = u @ w @ v \<and> M w) =
     ((\<exists>w v. c # cs = w @ v \<and> M w) \<or> (\<exists>u w v. cs = u @ w @ v \<and> M w))"
  (is "?L = (?A \<or> ?B)")
proof
  assume ?L
  then obtain u w v where e: "c # cs = u @ w @ v" and m: "M w" by blast
  show "?A \<or> ?B"
  proof (cases u)
    case Nil
    then show ?thesis using e m by auto
  next
    case (Cons a u')
    then have "cs = u' @ w @ v" using e by simp
    then show ?thesis using m by blast
  qed
next
  assume "?A \<or> ?B"
  then show ?L
  proof
    assume ?A
    then obtain w v where "c # cs = w @ v" and "M w" by blast
    then have "c # cs = [] @ w @ v \<and> M w" by simp
    then show ?L by blast
  next
    assume ?B
    then obtain u w v where "cs = u @ w @ v" and "M w" by blast
    then have "c # cs = (c # u) @ w @ v \<and> M w" by simp
    then show ?L by blast
  qed
qed

lemma occurs_in_infix: "occurs_in p s = (\<exists>u v. s = u @ p @ v)"
proof (induction s)
  case Nil
  show ?case by auto
next
  case (Cons c cs)
  have "occurs_in p (c # cs) = (starts_with p (c # cs) \<or> occurs_in p cs)"
    by simp
  also have "\<dots> = ((\<exists>w v. c # cs = w @ v \<and> w = p) \<or> (\<exists>u w v. cs = u @ w @ v \<and> w = p))"
    by (simp add: starts_with_prefix Cons.IH)
  also have "\<dots> = (\<exists>u w v. c # cs = u @ w @ v \<and> w = p)"
    by (rule somewhere_Cons [symmetric])
  finally show ?case by simp
qed

lemma any_line_ex: "any_line P bs = (\<exists>l \<in> set (concat bs). P l)"
  by (induction P bs rule: any_line.induct) auto

lemma select_filter: "select P bs = filter P (concat bs)"
  by (induction P bs rule: select.induct) auto

lemma collect_concat: "collect f bs = concat (map f (concat bs))"
  by (induction f bs rule: collect.induct) auto

lemma mentions_iff:
  "mentions p nb = (\<exists>l \<in> set (concat (text_blocks nb)). \<exists>u v. l = u @ p @ v)"
  by (simp add: mentions_def any_line_ex occurs_in_infix)

lemma starts_with_either_iff:
  "starts_with_either ps s = (\<exists>w t. s = w @ t \<and> list_all2 (\<lambda>(a, b) c. c = a \<or> c = b) ps w)"
proof (induction ps s rule: starts_with_either.induct)
  case (1 s)
  show ?case by simp
next
  case (2 p ps)
  show ?case by simp
next
  case (3 a b ps c cs)
  have "(\<exists>w t. c # cs = w @ t \<and> list_all2 (\<lambda>(a, b) c. c = a \<or> c = b) ((a, b) # ps) w) =
        ((c = a \<or> c = b) \<and> (\<exists>w t. cs = w @ t \<and> list_all2 (\<lambda>(a, b) c. c = a \<or> c = b) ps w))"
    by (auto simp: list_all2_Cons1 Cons_eq_append_conv)
  then show ?case
    using 3 by (auto simp: same_char_eq)
qed

lemma occurs_either_iff:
  "occurs_either ps s =
     (\<exists>u w v. s = u @ w @ v \<and> list_all2 (\<lambda>(a, b) c. c = a \<or> c = b) ps w)"
proof (induction s)
  case Nil
  show ?case by (auto simp: list_all2_Nil2)
next
  case (Cons c cs)
  have "occurs_either ps (c # cs) = (starts_with_either ps (c # cs) \<or> occurs_either ps cs)"
    by simp
  also have "\<dots> =
      ((\<exists>w v. c # cs = w @ v \<and> list_all2 (\<lambda>(a, b) c. c = a \<or> c = b) ps w) \<or>
       (\<exists>u w v. cs = u @ w @ v \<and> list_all2 (\<lambda>(a, b) c. c = a \<or> c = b) ps w))"
    by (simp only: starts_with_either_iff Cons.IH)
  also have "\<dots> =
      (\<exists>u w v. c # cs = u @ w @ v \<and> list_all2 (\<lambda>(a, b) c. c = a \<or> c = b) ps w)"
    by (rule somewhere_Cons [symmetric])
  finally show ?case .
qed

lemma both_cases_matches:
  "list_all2 (\<lambda>(a, b) c. c = a \<or> c = b) (both_cases p) w =
     list_all2 (\<lambda>a c. c = a \<or> c = upper a) p w"
  by (simp add: both_cases_def list_all2_map1)

lemma mentions_ci_iff:
  "mentions_ci p nb =
     (\<exists>l \<in> set (concat (text_blocks nb)).
        \<exists>u w v. l = u @ w @ v \<and> list_all2 (\<lambda>a c. c = a \<or> c = upper a) p w)"
  by (simp add: mentions_ci_def any_line_ex occurs_either_iff both_cases_matches)

lemma is_one_of_member: "is_one_of xs c = (c \<in> set xs)"
  by (induction xs) (auto simp: same_char_eq)

lemma is_space_iff: "is_space c = (c = CHR '' '' \<or> c = CHR 0x0A \<or> c = CHR 0x09)"
  by (auto simp: is_space_def same_char_eq)

lemma blank_iff: "blank s = (\<forall>c \<in> set s. is_space c)"
  by (induction s) auto

lemma take_ident_takeWhile: "take_ident s = takeWhile ident_char s"
  by (induction s) auto

lemma upto_takeWhile: "upto d s = takeWhile (\<lambda>c. c \<noteq> d) s"
  by (induction s) (auto simp: same_char_eq)

lemma drop_prefix_drop: "drop_prefix p s = drop (length p) s"
  by (induction p s rule: drop_prefix.induct) auto

lemma after_Some: "after p s = Some r \<Longrightarrow> \<exists>u. s = u @ p @ r"
proof (induction s)
  case Nil
  then show ?case by (auto split: if_splits)
next
  case (Cons c cs)
  show ?case
  proof (cases "starts_with p (c # cs)")
    case True
    then obtain t where t: "c # cs = p @ t" by (auto simp: starts_with_prefix)
    have "after p (c # cs) = Some (drop_prefix p (c # cs))" using True by simp
    then have "r = drop (length p) (c # cs)" using Cons.prems by (simp add: drop_prefix_drop)
    then have "r = t" unfolding t by simp
    then show ?thesis using t by (intro exI [of _ "[]"]) simp
  next
    case False
    then have "after p cs = Some r" using Cons.prems by simp
    then obtain u where "cs = u @ p @ r" using Cons.IH by blast
    then show ?thesis by (intro exI [of _ "c # u"]) simp
  qed
qed

section \<open>Evaluating the functions on the notebooks\<close>

text \<open>
  The facts about the notebooks are computed by rewriting with the defining equations.
  The functions that walk through a text character by character are given congruence
  rules that keep the simplifier from looking through their (already evaluated)
  arguments again at every step.
\<close>

lemma jstring_JStr: "map (jstring \<circ> JStr) xs = xs"
  by (induction xs) simp_all

lemmas reading =
  cells_def cell_type_def source_lines_def outputs_def output_type_def output_lines_def
  jlines_def cell_blocks_def text_blocks_def code_blocks_def prose_blocks_def
  output_blocks_def output_types_def code_cells_def prose_cells_def jstring_JStr

lemma same_char_cong: "same_char a b = same_char a b"
  by (rule refl)

lemma starts_with_cong: "starts_with p s = starts_with p s"
  by (rule refl)

lemma occurs_in_cong: "occurs_in p s = occurs_in p s"
  by (rule refl)

lemma starts_with_either_cong: "starts_with_either p s = starts_with_either p s"
  by (rule refl)

lemma occurs_either_cong: "occurs_either p s = occurs_either p s"
  by (rule refl)

lemma any_line_cong: "P = Q \<Longrightarrow> any_line P bs = any_line Q bs"
  by simp

lemma collect_cong: "f = g \<Longrightarrow> collect f bs = collect g bs"
  by simp

lemma select_cong: "P = Q \<Longrightarrow> select P bs = select Q bs"
  by simp

lemma blank_cong: "blank s = blank s"
  by (rule refl)

lemma squash_lines_cong: "squash_lines sp ls = squash_lines sp ls"
  by (rule refl)

lemma after_cong: "after p s = after p s"
  by (rule refl)

lemma values_after_cong: "values_after p d s = values_after p d s"
  by (rule refl)

lemma is_one_of_cong: "is_one_of xs c = is_one_of xs c"
  by (rule refl)

lemma before_parens_cong: "before_parens acc s = before_parens acc s"
  by (rule refl)

lemma take_ident_cong: "take_ident s = take_ident s"
  by (rule refl)

lemma starts_stmt_cong: "starts_stmt kw s = starts_stmt kw s"
  by (rule refl)

lemmas blocked =
  if_weak_cong same_char_cong starts_with_cong occurs_in_cong starts_with_either_cong
  occurs_either_cong any_line_cong collect_cong select_cong blank_cong squash_lines_cong after_cong
  values_after_cong is_one_of_cong before_parens_cong take_ident_cong starts_stmt_cong

lemmas text_eval =
  same_char.simps starts_with.simps occurs_in.simps starts_with_either.simps
  occurs_either.simps any_line.simps collect.simps select.simps is_space_def blank.simps
  group_lines.simps squash_lines.simps drop_prefix.simps after.simps upto.simps
  values_after.simps quoted_after_def is_one_of.simps ident_char_def before_parens.simps
  take_ident.simps paren_names_def starts_stmt.simps def_names_def call_names_def
  both_cases_def upper_def full_block_def plus_minus_def
  if_True if_False simp_thms list.simps list.sel option.simps prod.case fst_conv snd_conv
  append.simps rev.simps filter.simps concat.simps zip_Cons_Cons zip_Nil map_of.simps
  fun_upd_apply char.inject


lemmas dyn_cells =
  dynamics_and_evolution_def
  dyn_cell_0_def dyn_cell_1_def dyn_cell_2_def dyn_cell_3_def dyn_cell_4_def
  dyn_cell_5_def dyn_cell_6_def dyn_cell_7_def dyn_cell_8_def dyn_cell_9_def
  dyn_cell_10_def dyn_cell_11_def dyn_cell_12_def

lemmas dyn_text =
  dyn_0_src_def dyn_1_src_def dyn_2_src_def dyn_3_src_def dyn_3_out_def dyn_4_src_def
  dyn_5_src_def dyn_5_out_def dyn_6_src_def dyn_7_src_def dyn_7_out_def dyn_8_src_def
  dyn_8_out_def dyn_9_src_def dyn_9_out_def dyn_10_src_def dyn_11_src_def
  dyn_11_out_def dyn_12_src_def dyn_12_out_def
  full_block_def plus_minus_def append.simps

lemma cells_dyn:
  "cells dynamics_and_evolution = [
    dyn_cell_0, dyn_cell_1, dyn_cell_2, dyn_cell_3, dyn_cell_4, dyn_cell_5, dyn_cell_6,
    dyn_cell_7, dyn_cell_8, dyn_cell_9, dyn_cell_10, dyn_cell_11, dyn_cell_12]"
  by (simp add: cells_def dynamics_and_evolution_def)

lemma text_blocks_dyn:
  "text_blocks dynamics_and_evolution = [
    dyn_0_src, dyn_1_src, dyn_2_src, dyn_3_src, dyn_3_out, dyn_4_src, dyn_5_src, dyn_5_out,
    dyn_6_src, dyn_7_src, dyn_7_out, dyn_8_src, dyn_8_out, dyn_9_src, dyn_9_out,
    dyn_10_src, dyn_11_src, dyn_11_out, dyn_12_src, dyn_12_out]"
  by (simp add: reading dyn_cells)

lemma code_blocks_dyn:
  "code_blocks dynamics_and_evolution = [
    dyn_1_src, dyn_3_src, dyn_5_src, dyn_7_src, dyn_8_src, dyn_9_src, dyn_11_src,
    dyn_12_src]"
  by (simp add: reading dyn_cells)

lemma prose_blocks_dyn:
  "prose_blocks dynamics_and_evolution = [
    dyn_0_src, dyn_2_src, dyn_4_src, dyn_6_src, dyn_10_src]"
  by (simp add: reading dyn_cells)

lemma output_blocks_dyn:
  "output_blocks dynamics_and_evolution = [
    dyn_3_out, dyn_5_out, dyn_7_out, dyn_8_out, dyn_9_out, dyn_11_out, dyn_12_out]"
  by (simp add: reading dyn_cells)

lemmas calc_cells =
  calculating_quantities_def
  calc_cell_0_def calc_cell_1_def calc_cell_2_def calc_cell_3_def calc_cell_4_def
  calc_cell_5_def calc_cell_6_def calc_cell_7_def

lemmas calc_text =
  calc_0_src_def calc_1_src_def calc_1_out_def calc_2_src_def calc_2_out_def
  calc_3_src_def calc_4_src_def calc_4_out_def calc_5_src_def calc_6_src_def
  calc_6_out_def calc_7_src_def calc_7_out_def
  full_block_def plus_minus_def append.simps

lemma cells_calc:
  "cells calculating_quantities = [
    calc_cell_0, calc_cell_1, calc_cell_2, calc_cell_3, calc_cell_4, calc_cell_5,
    calc_cell_6, calc_cell_7]"
  by (simp add: cells_def calculating_quantities_def)

lemma text_blocks_calc:
  "text_blocks calculating_quantities = [
    calc_0_src, calc_1_src, calc_1_out, calc_2_src, calc_2_out, calc_3_src, calc_4_src,
    calc_4_out, calc_5_src, calc_6_src, calc_6_out, calc_7_src, calc_7_out]"
  by (simp add: reading calc_cells)

lemma code_blocks_calc:
  "code_blocks calculating_quantities = [
    calc_1_src, calc_2_src, calc_4_src, calc_6_src, calc_7_src]"
  by (simp add: reading calc_cells)

lemma prose_blocks_calc:
  "prose_blocks calculating_quantities = [
    calc_0_src, calc_3_src, calc_5_src]"
  by (simp add: reading calc_cells)

lemma output_blocks_calc:
  "output_blocks calculating_quantities = [
    calc_1_out, calc_2_out, calc_4_out, calc_6_out, calc_7_out]"
  by (simp add: reading calc_cells)

lemma prose_paragraphs_dyn:
  \<open>prose_paragraphs dynamics_and_evolution = [
    ''############## Time Evolution ############## '',
    ''Time evolutions in ``quimb`` are handled by the class :class:`~quimb.evo.Evolution`, which is initialized with a starting state and hamiltonian. '',
    ''Basic Usage ~~~~~~~~~~~ '',
    ''Set up the :class:`~quimb.evo.Evolution` object with a initial state and hamiltonian.'',
    ''Update it in a single shot to a new time and get the state,'',
    ''Lazily generate the state at multiple times:'',
    ''Methods of Updating ~~~~~~~~~~~~~~~~~~~ '',
    ''There are three methods of updating the state: '',
    ''- ``Evolution(..., method=\'integrate\')``: use definite integration. Get system at each time step, only need action of Hamiltonian on state. Generally efficient. For pure and mixed states. The additional option ``int_small_step={False, True}`` determines whether a low or high order adaptive stepping scheme is used, giving naturally smaller or larger times steps. See :class:`scipy.integrate.ode` for details, ``False`` corresponds to ``"dop853"``, ``True`` to ``"dopri5"``. '',
    ''- ``Evolution(..., method=\'solve\')``. Diagonalize the hamiltonian, which once done, allows quickly updating to arbitrary times. Supports pure and mixed states, recomended for small systems. '',
    ''- ``Evolution(..., method=\'expm\')``: compute the evolved state using the action of the matrix exponential in a \'single shot\' style. Only needs action of Hamiltonian, for very large systems can use distributed MPI. Only for pure states. '',
    ''Computing on the fly ~~~~~~~~~~~~~~~~~~~~ '',
    ''Sometimes, if integrating, it is best to just query the state at time-steps chosen dynamically by the adaptive scheme. This is achieved using the ``compute`` keyword supplied to ``Evolution``. It can also just be a convenient way to set up calculations as well:'',
    ''If a dict of callables is supplied to ``compute``, (each should take two arguments, the time, and the state, as above), ``Evolution.results`` will itself be a dictionary containing the results of each function at each time step, under the respective key. This can be more convenient:'']\<close>
  unfolding prose_paragraphs_def paragraphs_def prose_blocks_dyn dyn_text
  by (simp only: text_eval cong: blocked)

lemma prose_paragraphs_calc:
  \<open>prose_paragraphs calculating_quantities = [
    ''###################### Calculating Quantities ###################### '',
    ''There are various built-in functions to calculate quantities, not limited to: '',
    ''- :func:`~quimb.calc.fidelity` - :func:`~quimb.calc.purify` - :func:`~quimb.calc.dephase` - :func:`~quimb.calc.entropy` - :func:`~quimb.calc.mutinf` - :func:`~quimb.calc.mutinf_subsys` - :func:`~quimb.calc.schmidt_gap` - :func:`~quimb.calc.tr_sqrt` - :func:`~quimb.calc.partial_transpose` - :func:`~quimb.calc.logneg` - :func:`~quimb.calc.logneg_subsys` - :func:`~quimb.calc.negativity` - :func:`~quimb.calc.concurrence` - :func:`~quimb.calc.one_way_classical_information` - :func:`~quimb.calc.quantum_discord` - :func:`~quimb.calc.trace_distance` - :func:`~quimb.calc.decomp` - :func:`~quimb.calc.correlation` - :func:`~quimb.calc.pauli_correlations` - :func:`~quimb.calc.ent_cross_matrix` - :func:`~quimb.calc.is_degenerate` - :func:`~quimb.calc.is_eigenvector` - :func:`~quimb.calc.page_entropy` - :func:`~quimb.calc.heisenberg_energy` '',
    ''Approximate Spectral Functions ============================== '',
    ''The module :py:mod:`~quimb.linalg.approx_spectral`, contains a Lanczos method for estimating any quantities of the form ``tr(fn(A))``. Where ``A`` is any operator that implements a dot product with a vector. For example, estimating the trace of the sqrt of a matrix would naievly require diagonalising it:'',
    ''Diagonalization has a cost of ``O(n^3)``, which is essentially reduced to ``O(k * n^2)`` for this stochastic method. For a general function :func:`~quimb.linalg.approx_spectral.approx_spectral_function` can be used. '',
    ''However, the real advantage occurs when the full matrix does not need to be fully represented, e.g. in the case of \'partial trace states\'. One can then calculate quantities for subsystems that would not be possible to explicitly represent. '',
    ''For example, the partial trace, followed by partial transpose, followed by vector multiplication can be \'lazily\' evaluated as a tensor contraction (see :py:func:`~quimb.linalg.approx_spectral.lazy_ptr_ppt_dot`). In this way the logarithmic negativity of subsytems can be efficiently calculated:'',
    ''Under the hood, this method makes use of :mod:`quimb.tensor` functionality, which allows `various tensor contraction backends <http://optimized-einsum.readthedocs.io/en/latest/backends.html>`_ to be used (see :func:`~quimb.tensor.tensor_core.set_tensor_linop_backend`). These types of computation are particularly suited to the GPU and therefore if `cupy <https://cupy.chainer.org>`_ is installed it will be used automatically:'']\<close>
  unfolding prose_paragraphs_def paragraphs_def prose_blocks_calc calc_text
  by (simp only: text_eval cong: blocked)

section \<open>What the code cells define and call\<close>

lemma json_lines_dyn: "json_lines dynamics_and_evolution = 282"
  by code_simp

lemma json_lines_calc: "json_lines calculating_quantities = 195"
  by code_simp

lemma cell_types_dyn:
  "map cell_type (cells dynamics_and_evolution) =
     [''raw'', ''code'', ''markdown'', ''code'', ''markdown'', ''code'', ''raw'', ''code'',
      ''code'', ''code'', ''raw'', ''code'', ''code'']"
  unfolding cells_dyn
  by (simp add: cell_type_def dyn_cells)

lemma cell_types_calc:
  "map cell_type (cells calculating_quantities) =
     [''raw'', ''code'', ''code'', ''raw'', ''code'', ''raw'', ''code'', ''code'']"
  unfolding cells_calc
  by (simp add: cell_type_def calc_cells)

lemma output_types_dyn:
  "output_types dynamics_and_evolution =
     [''execute_result'', ''stream'', ''stream'', ''execute_result'', ''execute_result'',
      ''stream'', ''execute_result'']"
  by (simp add: reading dyn_cells)

lemma output_types_calc:
  "output_types calculating_quantities =
     [''execute_result'', ''execute_result'', ''execute_result'', ''stream'', ''stream'']"
  by (simp add: reading calc_cells)

lemma defined_dyn:
  "defined dynamics_and_evolution = [''calc_t_and_logneg'', ''calc_t'', ''calc_logneg'']"
  unfolding defined_def code_blocks_dyn dyn_text
  by (simp only: text_eval cong: blocked)

lemma defined_calc:
  "defined calculating_quantities = []"
  unfolding defined_def code_blocks_calc calc_text
  by (simp only: text_eval cong: blocked)

lemma class_statements_dyn:
  "class_statements dynamics_and_evolution = []"
  unfolding class_statements_def code_blocks_dyn dyn_text
  by (simp only: text_eval cong: blocked)

lemma class_statements_calc:
  "class_statements calculating_quantities = []"
  unfolding class_statements_def code_blocks_calc calc_text
  by (simp only: text_eval cong: blocked)

lemma calls_dyn:
  "calls dynamics_and_evolution =
     [''rand_ket'', ''ham_heis'', ''Evolution'', ''evo.update_to'', ''evo.at_times'',
      ''print'', ''expec'', ''rand_product_state'', ''ham_heis'', ''logneg_subsys'',
      ''Evolution'', ''evo.update_to'', ''zip'', ''logneg_subsys'', ''Evolution'',
      ''evo.update_to'']"
  unfolding calls_def code_blocks_dyn dyn_text
  by (simp only: text_eval cong: blocked)

lemma calls_calc:
  "calls calculating_quantities =
     [''qu.rand_rho'', ''qu.eigvalsh'', ''sum'', ''qu.tr_sqrt_approx'', ''qu.rand_ket'',
      ''qu.logneg_subsys_approx'', ''qu.logneg_subsys_approx'', ''qu.logneg_subsys_approx'']"
  unfolding calls_def code_blocks_calc calc_text
  by (simp only: text_eval cong: blocked)

text \<open>
  C1. The sources are the two notebooks, and they hold no implementation. The files have
  282 and 195 lines (477 together, which the specification rounds to about 468). Every
  cell is a raw, markdown or code cell. The code cells contain no class statement, and
  the only functions they define are the three callbacks \<^verbatim>\<open>calc_t_and_logneg\<close>,
  \<^verbatim>\<open>calc_t\<close> and \<^verbatim>\<open>calc_logneg\<close>; everything the code cells call (\<^verbatim>\<open>Evolution\<close>,
  \<^verbatim>\<open>logneg_subsys_approx\<close>, \<^verbatim>\<open>tr_sqrt_approx\<close> and the rest) is called and nowhere
  defined: the evolution engine, the spectral solver and the contraction backend are
  used, not implemented.
\<close>

theorem notebooks_hold_no_implementation:
  "json_lines dynamics_and_evolution = 282 \<and>
   json_lines calculating_quantities = 195 \<and>
   map cell_type (cells dynamics_and_evolution) =
     [''raw'', ''code'', ''markdown'', ''code'', ''markdown'', ''code'', ''raw'', ''code'',
      ''code'', ''code'', ''raw'', ''code'', ''code''] \<and>
   map cell_type (cells calculating_quantities) =
     [''raw'', ''code'', ''code'', ''raw'', ''code'', ''raw'', ''code'', ''code''] \<and>
   class_statements dynamics_and_evolution = [] \<and>
   class_statements calculating_quantities = [] \<and>
   defined dynamics_and_evolution = [''calc_t_and_logneg'', ''calc_t'', ''calc_logneg''] \<and>
   defined calculating_quantities = [] \<and>
   calls dynamics_and_evolution =
     [''rand_ket'', ''ham_heis'', ''Evolution'', ''evo.update_to'', ''evo.at_times'',
      ''print'', ''expec'', ''rand_product_state'', ''ham_heis'', ''logneg_subsys'',
      ''Evolution'', ''evo.update_to'', ''zip'', ''logneg_subsys'', ''Evolution'',
      ''evo.update_to''] \<and>
   calls calculating_quantities =
     [''qu.rand_rho'', ''qu.eigvalsh'', ''sum'', ''qu.tr_sqrt_approx'', ''qu.rand_ket'',
      ''qu.logneg_subsys_approx'', ''qu.logneg_subsys_approx'', ''qu.logneg_subsys_approx''] \<and>
   filter (\<lambda>n. n \<in> set (defined dynamics_and_evolution @ defined calculating_quantities))
     (calls dynamics_and_evolution @ calls calculating_quantities) = []"
  unfolding json_lines_dyn json_lines_calc cell_types_dyn cell_types_calc
    class_statements_dyn class_statements_calc defined_dyn defined_calc calls_dyn calls_calc
  by simp

section \<open>The calls that the notebooks show\<close>

lemma shown_dyn_0: \<open>code_mentions ''evo = Evolution(p0, h)'' dynamics_and_evolution\<close>
  unfolding code_mentions_def code_blocks_dyn dyn_text
  by (simp only: text_eval cong: blocked)

lemma shown_dyn_1: \<open>code_mentions ''evo.update_to(1)'' dynamics_and_evolution\<close>
  unfolding code_mentions_def code_blocks_dyn dyn_text
  by (simp only: text_eval cong: blocked)

lemma shown_dyn_2: \<open>code_mentions ''compute=calc_t_and_logneg'' dynamics_and_evolution\<close>
  unfolding code_mentions_def code_blocks_dyn dyn_text
  by (simp only: text_eval cong: blocked)

lemma shown_dyn_3: \<open>code_mentions ''compute={\'t\': calc_t, \'ln\': calc_logneg}'' dynamics_and_evolution\<close>
  unfolding code_mentions_def code_blocks_dyn dyn_text
  by (simp only: text_eval cong: blocked)

lemma shown_calc_0: \<open>code_mentions ''dims = [2**8, 2**4, 2**8]'' calculating_quantities\<close>
  unfolding code_mentions_def code_blocks_calc calc_text
  by (simp only: text_eval cong: blocked)

lemma shown_calc_1: \<open>code_mentions ''qu.logneg_subsys_approx(psi, dims, sysa=0, sysb=2)'' calculating_quantities\<close>
  unfolding code_mentions_def code_blocks_calc calc_text
  by (simp only: text_eval cong: blocked)

lemma shown_calc_2: \<open>code_mentions ''backend=\'numpy\')'' calculating_quantities\<close>
  unfolding code_mentions_def code_blocks_calc calc_text
  by (simp only: text_eval cong: blocked)

lemma shown_calc_3: \<open>code_mentions ''backend=\'cupy\')'' calculating_quantities\<close>
  unfolding code_mentions_def code_blocks_calc calc_text
  by (simp only: text_eval cong: blocked)

text \<open>
  C2, as stated, fails: the notebooks show calls beyond the surface that the
  specification enumerates. The notebook on time evolution calls \<^verbatim>\<open>evo.at_times\<close>
  (``lazily generate the state at multiple times''), and the notebook on quantities
  calls \<^verbatim>\<open>qu.tr_sqrt_approx\<close>; neither is among the enumerated calls.
\<close>

theorem calls_beyond_the_enumerated_surface:
  "''evo.at_times'' \<in> set (calls dynamics_and_evolution) \<and>
   ''evo.at_times'' \<notin> set spec_enumerated_calls \<and>
   ''qu.tr_sqrt_approx'' \<in> set (calls calculating_quantities) \<and>
   ''qu.tr_sqrt_approx'' \<notin> set spec_enumerated_calls"
  unfolding calls_dyn calls_calc spec_enumerated_calls_def
  by simp

text \<open>
  C2, amended. Every element of the enumerated surface appears as a call in a code cell:
  \<^verbatim>\<open>Evolution(p0, h)\<close>, \<^verbatim>\<open>evo.update_to(1)\<close>, the \<^verbatim>\<open>compute\<close> keyword with one callable
  and with a dict of callables, and \<^verbatim>\<open>logneg_subsys_approx\<close> with a list of subsystem
  dimensions and with the \<^verbatim>\<open>backend\<close> keyword. The notebooks show more than that: the
  names called in their code cells are exactly the ones listed (the constructors of
  states and Hamiltonians, \<^verbatim>\<open>at_times\<close>, \<^verbatim>\<open>expec\<close>, \<^verbatim>\<open>logneg_subsys\<close>, \<^verbatim>\<open>eigvalsh\<close>,
  \<^verbatim>\<open>tr_sqrt_approx\<close> and the builtins \<^verbatim>\<open>print\<close>, \<^verbatim>\<open>zip\<close> and \<^verbatim>\<open>sum\<close> among them).
\<close>

theorem enumerated_surface_is_shown:
  \<open>filter (\<lambda>n. n \<notin> set (calls dynamics_and_evolution @ calls calculating_quantities))
     spec_enumerated_calls = [] \<and>
   code_mentions ''evo = Evolution(p0, h)'' dynamics_and_evolution \<and>
   code_mentions ''evo.update_to(1)'' dynamics_and_evolution \<and>
   code_mentions ''compute=calc_t_and_logneg'' dynamics_and_evolution \<and>
   code_mentions ''compute={\'t\': calc_t, \'ln\': calc_logneg}'' dynamics_and_evolution \<and>
   code_mentions ''dims = [2**8, 2**4, 2**8]'' calculating_quantities \<and>
   code_mentions ''qu.logneg_subsys_approx(psi, dims, sysa=0, sysb=2)'' calculating_quantities \<and>
   code_mentions ''backend=\'numpy\')'' calculating_quantities \<and>
   code_mentions ''backend=\'cupy\')'' calculating_quantities \<and>
   remdups (calls dynamics_and_evolution @ calls calculating_quantities) =
     [''rand_ket'', ''evo.at_times'', ''print'', ''expec'', ''rand_product_state'',
      ''ham_heis'', ''zip'', ''logneg_subsys'', ''Evolution'', ''evo.update_to'',
      ''qu.rand_rho'', ''qu.eigvalsh'', ''sum'', ''qu.tr_sqrt_approx'', ''qu.rand_ket'',
      ''qu.logneg_subsys_approx'']\<close>
  unfolding calls_dyn calls_calc spec_enumerated_calls_def
  using shown_dyn_0 shown_dyn_1 shown_dyn_2 shown_dyn_3
    shown_calc_0 shown_calc_1 shown_calc_2 shown_calc_3
  by simp

section \<open>The methods of updating\<close>

lemma documented_methods_dyn:
  "documented_methods dynamics_and_evolution = [''integrate'', ''solve'', ''expm'']"
  unfolding documented_methods_def text_blocks_dyn dyn_text
  by (simp only: text_eval cong: blocked)

lemma documented_methods_calc:
  "documented_methods calculating_quantities = []"
  unfolding documented_methods_def text_blocks_calc calc_text
  by (simp only: text_eval cong: blocked)

lemma three_methods_announced:
  "prose_mentions ''There are three methods of updating the state:'' dynamics_and_evolution"
  unfolding prose_mentions_def prose_blocks_dyn dyn_text
  by (simp only: text_eval cong: blocked)

lemma integrate_paragraph:
  \<open>method_paragraphs dynamics_and_evolution ''integrate'' =
     [''- ``Evolution(..., method=\'integrate\')``: use definite integration. Get system at each time step, only need action of Hamiltonian on state. Generally efficient. For pure and mixed states. The additional option ``int_small_step={False, True}`` determines whether a low or high order adaptive stepping scheme is used, giving naturally smaller or larger times steps. See :class:`scipy.integrate.ode` for details, ``False`` corresponds to ``"dop853"``, ``True`` to ``"dopri5"``. '']\<close>
  unfolding method_paragraphs_def paragraphs_with_def prose_paragraphs_dyn
  by (simp only: text_eval cong: blocked)

lemma solve_paragraph:
  \<open>method_paragraphs dynamics_and_evolution ''solve'' =
     [''- ``Evolution(..., method=\'solve\')``. Diagonalize the hamiltonian, which once done, allows quickly updating to arbitrary times. Supports pure and mixed states, recomended for small systems. '']\<close>
  unfolding method_paragraphs_def paragraphs_with_def prose_paragraphs_dyn
  by (simp only: text_eval cong: blocked)

lemma expm_paragraph:
  \<open>method_paragraphs dynamics_and_evolution ''expm'' =
     [''- ``Evolution(..., method=\'expm\')``: compute the evolved state using the action of the matrix exponential in a \'single shot\' style. Only needs action of Hamiltonian, for very large systems can use distributed MPI. Only for pure states. '']\<close>
  unfolding method_paragraphs_def paragraphs_with_def prose_paragraphs_dyn
  by (simp only: text_eval cong: blocked)

text \<open>
  C3. The notebook documents exactly three methods of updating the state. It announces
  three, the values it gives to the keyword \<^verbatim>\<open>method\<close> are \<^verbatim>\<open>integrate\<close>, \<^verbatim>\<open>solve\<close>
  and \<^verbatim>\<open>expm\<close> and no other, and each has one paragraph, which describes it as the
  specification does: definite integration with an adaptive stepping scheme that needs
  only the action of the Hamiltonian on the state; diagonalising the Hamiltonian, after
  which updates to arbitrary times are quick; the action of the matrix exponential in a
  single shot.
\<close>

theorem three_methods_of_updating:
  \<open>prose_mentions ''There are three methods of updating the state:'' dynamics_and_evolution \<and>
   documented_methods dynamics_and_evolution = [''integrate'', ''solve'', ''expm''] \<and>
   documented_methods calculating_quantities = [] \<and>
   method_paragraphs dynamics_and_evolution ''integrate'' =
     [''- ``Evolution(..., method=\'integrate\')``: use definite integration. Get system at each time step, only need action of Hamiltonian on state. Generally efficient. For pure and mixed states. The additional option ``int_small_step={False, True}`` determines whether a low or high order adaptive stepping scheme is used, giving naturally smaller or larger times steps. See :class:`scipy.integrate.ode` for details, ``False`` corresponds to ``"dop853"``, ``True`` to ``"dopri5"``. ''] \<and>
   method_paragraphs dynamics_and_evolution ''solve'' =
     [''- ``Evolution(..., method=\'solve\')``. Diagonalize the hamiltonian, which once done, allows quickly updating to arbitrary times. Supports pure and mixed states, recomended for small systems. ''] \<and>
   method_paragraphs dynamics_and_evolution ''expm'' =
     [''- ``Evolution(..., method=\'expm\')``: compute the evolved state using the action of the matrix exponential in a \'single shot\' style. Only needs action of Hamiltonian, for very large systems can use distributed MPI. Only for pure states. '']\<close>
  using three_methods_announced documented_methods_dyn documented_methods_calc
    integrate_paragraph solve_paragraph expm_paragraph
  by (simp only: simp_thms)

section \<open>The approximate spectral functions\<close>

lemma lanczos_paragraph:
  \<open>paragraphs_with ''Lanczos'' calculating_quantities =
     [''The module :py:mod:`~quimb.linalg.approx_spectral`, contains a Lanczos method for estimating any quantities of the form ``tr(fn(A))``. Where ``A`` is any operator that implements a dot product with a vector. For example, estimating the trace of the sqrt of a matrix would naievly require diagonalising it:'']\<close>
  unfolding paragraphs_with_def prose_paragraphs_calc
  by (simp only: text_eval cong: blocked)

lemma stochastic_paragraph:
  \<open>paragraphs_with ''stochastic'' calculating_quantities =
     [''Diagonalization has a cost of ``O(n^3)``, which is essentially reduced to ``O(k * n^2)`` for this stochastic method. For a general function :func:`~quimb.linalg.approx_spectral.approx_spectral_function` can be used. '']\<close>
  unfolding paragraphs_with_def prose_paragraphs_calc
  by (simp only: text_eval cong: blocked)

lemma lazy_paragraph:
  \<open>paragraphs_with ''lazy_ptr_ppt_dot'' calculating_quantities =
     [''For example, the partial trace, followed by partial transpose, followed by vector multiplication can be \'lazily\' evaluated as a tensor contraction (see :py:func:`~quimb.linalg.approx_spectral.lazy_ptr_ppt_dot`). In this way the logarithmic negativity of subsytems can be efficiently calculated:'']\<close>
  unfolding paragraphs_with_def prose_paragraphs_calc
  by (simp only: text_eval cong: blocked)

lemma full_matrix_paragraph:
  \<open>paragraphs_with ''fully represented'' calculating_quantities =
     [''However, the real advantage occurs when the full matrix does not need to be fully represented, e.g. in the case of \'partial trace states\'. One can then calculate quantities for subsystems that would not be possible to explicitly represent. '']\<close>
  unfolding paragraphs_with_def prose_paragraphs_calc
  by (simp only: text_eval cong: blocked)

text \<open>
  C4. What the notebook on quantities documents of the approximate spectral estimator,
  each statement in the one paragraph that makes it: a Lanczos method that estimates any
  quantity of the form \<^verbatim>\<open>tr(fn(A))\<close>, where \<^verbatim>\<open>A\<close> is any operator that implements a
  dot product with a vector; the method is stochastic; the partial trace, followed by
  the partial transpose, followed by the multiplication with a vector is evaluated
  lazily as a tensor contraction (\<^verbatim>\<open>lazy_ptr_ppt_dot\<close>), and in this way the logarithmic
  negativity of subsystems is calculated; the advantage is that the full matrix need
  not be represented. The estimator itself is not among the sources: the theorem is
  about its documentation.
\<close>

theorem approximate_spectral_estimator_documented:
  \<open>paragraphs_with ''Lanczos'' calculating_quantities =
     [''The module :py:mod:`~quimb.linalg.approx_spectral`, contains a Lanczos method for estimating any quantities of the form ``tr(fn(A))``. Where ``A`` is any operator that implements a dot product with a vector. For example, estimating the trace of the sqrt of a matrix would naievly require diagonalising it:''] \<and>
   paragraphs_with ''stochastic'' calculating_quantities =
     [''Diagonalization has a cost of ``O(n^3)``, which is essentially reduced to ``O(k * n^2)`` for this stochastic method. For a general function :func:`~quimb.linalg.approx_spectral.approx_spectral_function` can be used. ''] \<and>
   paragraphs_with ''lazy_ptr_ppt_dot'' calculating_quantities =
     [''For example, the partial trace, followed by partial transpose, followed by vector multiplication can be \'lazily\' evaluated as a tensor contraction (see :py:func:`~quimb.linalg.approx_spectral.lazy_ptr_ppt_dot`). In this way the logarithmic negativity of subsytems can be efficiently calculated:''] \<and>
   paragraphs_with ''fully represented'' calculating_quantities =
     [''However, the real advantage occurs when the full matrix does not need to be fully represented, e.g. in the case of \'partial trace states\'. One can then calculate quantities for subsystems that would not be possible to explicitly represent. '']\<close>
  using lanczos_paragraph stochastic_paragraph lazy_paragraph full_matrix_paragraph
  by (simp only: simp_thms)

section \<open>Errors\<close>

lemma dyn_lacks_error: "\<not> mentions_ci ''error'' dynamics_and_evolution"
  unfolding mentions_ci_def text_blocks_dyn dyn_text
  by (simp only: text_eval cong: blocked)

lemma dyn_lacks_except: "\<not> mentions_ci ''except'' dynamics_and_evolution"
  unfolding mentions_ci_def text_blocks_dyn dyn_text
  by (simp only: text_eval cong: blocked)

lemma dyn_lacks_rais: "\<not> mentions_ci ''rais'' dynamics_and_evolution"
  unfolding mentions_ci_def text_blocks_dyn dyn_text
  by (simp only: text_eval cong: blocked)

lemma dyn_lacks_fail: "\<not> mentions_ci ''fail'' dynamics_and_evolution"
  unfolding mentions_ci_def text_blocks_dyn dyn_text
  by (simp only: text_eval cong: blocked)

lemma dyn_lacks_recover: "\<not> mentions_ci ''recover'' dynamics_and_evolution"
  unfolding mentions_ci_def text_blocks_dyn dyn_text
  by (simp only: text_eval cong: blocked)

lemma dyn_lacks_traceback: "\<not> mentions_ci ''traceback'' dynamics_and_evolution"
  unfolding mentions_ci_def text_blocks_dyn dyn_text
  by (simp only: text_eval cong: blocked)

lemma dyn_lacks_invalid: "\<not> mentions_ci ''invalid'' dynamics_and_evolution"
  unfolding mentions_ci_def text_blocks_dyn dyn_text
  by (simp only: text_eval cong: blocked)

lemma dyn_lacks_warn: "\<not> mentions_ci ''warn'' dynamics_and_evolution"
  unfolding mentions_ci_def text_blocks_dyn dyn_text
  by (simp only: text_eval cong: blocked)

lemma dyn_lacks_abort: "\<not> mentions_ci ''abort'' dynamics_and_evolution"
  unfolding mentions_ci_def text_blocks_dyn dyn_text
  by (simp only: text_eval cong: blocked)

lemma dyn_lacks_retry: "\<not> mentions_ci ''retry'' dynamics_and_evolution"
  unfolding mentions_ci_def text_blocks_dyn dyn_text
  by (simp only: text_eval cong: blocked)

lemma calc_lacks_error: "\<not> mentions_ci ''error'' calculating_quantities"
  unfolding mentions_ci_def text_blocks_calc calc_text
  by (simp only: text_eval cong: blocked)

lemma calc_lacks_except: "\<not> mentions_ci ''except'' calculating_quantities"
  unfolding mentions_ci_def text_blocks_calc calc_text
  by (simp only: text_eval cong: blocked)

lemma calc_lacks_rais: "\<not> mentions_ci ''rais'' calculating_quantities"
  unfolding mentions_ci_def text_blocks_calc calc_text
  by (simp only: text_eval cong: blocked)

lemma calc_lacks_fail: "\<not> mentions_ci ''fail'' calculating_quantities"
  unfolding mentions_ci_def text_blocks_calc calc_text
  by (simp only: text_eval cong: blocked)

lemma calc_lacks_recover: "\<not> mentions_ci ''recover'' calculating_quantities"
  unfolding mentions_ci_def text_blocks_calc calc_text
  by (simp only: text_eval cong: blocked)

lemma calc_lacks_traceback: "\<not> mentions_ci ''traceback'' calculating_quantities"
  unfolding mentions_ci_def text_blocks_calc calc_text
  by (simp only: text_eval cong: blocked)

lemma calc_lacks_invalid: "\<not> mentions_ci ''invalid'' calculating_quantities"
  unfolding mentions_ci_def text_blocks_calc calc_text
  by (simp only: text_eval cong: blocked)

lemma calc_lacks_warn: "\<not> mentions_ci ''warn'' calculating_quantities"
  unfolding mentions_ci_def text_blocks_calc calc_text
  by (simp only: text_eval cong: blocked)

lemma calc_lacks_abort: "\<not> mentions_ci ''abort'' calculating_quantities"
  unfolding mentions_ci_def text_blocks_calc calc_text
  by (simp only: text_eval cong: blocked)

lemma calc_lacks_retry: "\<not> mentions_ci ''retry'' calculating_quantities"
  unfolding mentions_ci_def text_blocks_calc calc_text
  by (simp only: text_eval cong: blocked)

lemma words_found_Nil: "words_found [] nb = []"
  by (simp add: words_found_def)

lemma words_found_absent: "\<not> mentions_ci w nb \<Longrightarrow> words_found (w # ws) nb = words_found ws nb"
  by (simp add: words_found_def)

text \<open>
  C5. Neither notebook discusses an error condition, a kind of exception or recovery.
  No recorded output is an error (a notebook records a raised exception as an output of
  type \<^verbatim>\<open>error\<close>, with the traceback), and no word of the vocabulary of errors (error,
  exception and except, raise, fail, recover, traceback, invalid, warn, abort, retry;
  as stems, in any case of letters) occurs in any source or output of either notebook.
\<close>

theorem no_error_semantics_discussed:
  "output_types dynamics_and_evolution =
     [''execute_result'', ''stream'', ''stream'', ''execute_result'', ''execute_result'',
      ''stream'', ''execute_result''] \<and>
   output_types calculating_quantities =
     [''execute_result'', ''execute_result'', ''execute_result'', ''stream'', ''stream''] \<and>
   words_found error_vocabulary dynamics_and_evolution = [] \<and>
   words_found error_vocabulary calculating_quantities = []"
  unfolding error_vocabulary_def
  by (simp only: output_types_dyn output_types_calc words_found_absent words_found_Nil simp_thms
      dyn_lacks_error dyn_lacks_except dyn_lacks_rais dyn_lacks_fail dyn_lacks_recover dyn_lacks_traceback dyn_lacks_invalid dyn_lacks_warn dyn_lacks_abort dyn_lacks_retry
      calc_lacks_error calc_lacks_except calc_lacks_rais calc_lacks_fail calc_lacks_recover calc_lacks_traceback calc_lacks_invalid calc_lacks_warn calc_lacks_abort calc_lacks_retry)

section \<open>The GPU backend and the progress bar\<close>

lemma gpu_paragraph:
  \<open>paragraphs_with ''GPU'' calculating_quantities =
     [''Under the hood, this method makes use of :mod:`quimb.tensor` functionality, which allows `various tensor contraction backends <http://optimized-einsum.readthedocs.io/en/latest/backends.html>`_ to be used (see :func:`~quimb.tensor.tensor_core.set_tensor_linop_backend`). These types of computation are particularly suited to the GPU and therefore if `cupy <https://cupy.chainer.org>`_ is installed it will be used automatically:'']\<close>
  unfolding paragraphs_with_def prose_paragraphs_calc
  by (simp only: text_eval cong: blocked)

lemma backend_lines:
  \<open>lines_with ''backend='' calculating_quantities =
     [''%timeit qu.logneg_subsys_approx(psi, dims, sysa=0, sysb=2, backend=\'numpy\')'',
      ''%timeit qu.logneg_subsys_approx(psi, dims, sysa=0, sysb=2, backend=\'cupy\')'']\<close>
  unfolding lines_with_def text_blocks_calc calc_text
  by (simp only: text_eval cong: blocked)

lemma progbar_lines:
  \<open>lines_with ''progbar'' dynamics_and_evolution =
     [''evo = Evolution(p0, h, compute=calc_t_and_logneg, progbar=True)\<newline>'',
      ''evo = Evolution(p0, h, compute={\'t\': calc_t, \'ln\': calc_logneg}, progbar=True)\<newline>'']\<close>
  unfolding lines_with_def text_blocks_dyn dyn_text
  by (simp only: text_eval cong: blocked)

lemma order_lines_dyn:
  \<open>lines_with_ci ''order'' dynamics_and_evolution =
     [''      whether a low or high order adaptive stepping scheme is used, \<newline>'']\<close>
  unfolding lines_with_ci_def text_blocks_dyn dyn_text
  by (simp only: text_eval cong: blocked)

lemma order_lines_calc:
  \<open>lines_with_ci ''order'' calculating_quantities = []\<close>
  unfolding lines_with_ci_def text_blocks_calc calc_text
  by (simp only: text_eval cong: blocked)

lemma dyn_lacks_schedul: "\<not> mentions_ci ''schedul'' dynamics_and_evolution"
  unfolding mentions_ci_def text_blocks_dyn dyn_text
  by (simp only: text_eval cong: blocked)

lemma dyn_lacks_suspen: "\<not> mentions_ci ''suspen'' dynamics_and_evolution"
  unfolding mentions_ci_def text_blocks_dyn dyn_text
  by (simp only: text_eval cong: blocked)

lemma dyn_lacks_cancel: "\<not> mentions_ci ''cancel'' dynamics_and_evolution"
  unfolding mentions_ci_def text_blocks_dyn dyn_text
  by (simp only: text_eval cong: blocked)

lemma dyn_lacks_interrupt: "\<not> mentions_ci ''interrupt'' dynamics_and_evolution"
  unfolding mentions_ci_def text_blocks_dyn dyn_text
  by (simp only: text_eval cong: blocked)

lemma dyn_lacks_preempt: "\<not> mentions_ci ''preempt'' dynamics_and_evolution"
  unfolding mentions_ci_def text_blocks_dyn dyn_text
  by (simp only: text_eval cong: blocked)

lemma calc_lacks_schedul: "\<not> mentions_ci ''schedul'' calculating_quantities"
  unfolding mentions_ci_def text_blocks_calc calc_text
  by (simp only: text_eval cong: blocked)

lemma calc_lacks_suspen: "\<not> mentions_ci ''suspen'' calculating_quantities"
  unfolding mentions_ci_def text_blocks_calc calc_text
  by (simp only: text_eval cong: blocked)

lemma calc_lacks_cancel: "\<not> mentions_ci ''cancel'' calculating_quantities"
  unfolding mentions_ci_def text_blocks_calc calc_text
  by (simp only: text_eval cong: blocked)

lemma calc_lacks_interrupt: "\<not> mentions_ci ''interrupt'' calculating_quantities"
  unfolding mentions_ci_def text_blocks_calc calc_text
  by (simp only: text_eval cong: blocked)

lemma calc_lacks_preempt: "\<not> mentions_ci ''preempt'' calculating_quantities"
  unfolding mentions_ci_def text_blocks_calc calc_text
  by (simp only: text_eval cong: blocked)

text \<open>
  C7. The notebook on quantities mentions execution on the GPU in one paragraph (the
  tensor contraction backends, and \<^verbatim>\<open>cupy\<close>, which ``will be used automatically'' if it is
  installed) and selects the backend by the \<^verbatim>\<open>backend\<close> argument in its two timing cells
  (\<^verbatim>\<open>'numpy'\<close> and \<^verbatim>\<open>'cupy'\<close>); the notebook on time evolution asks for the progress bar
  by \<^verbatim>\<open>progbar=True\<close> in its two calls of \<^verbatim>\<open>Evolution\<close> with callbacks. Neither notebook
  says anything of scheduling, suspension or cancellation (no word of that vocabulary
  occurs), and the one line with the word ``order'' speaks of the order of the stepping
  scheme.
\<close>

theorem gpu_and_progress_bar_without_semantics:
  \<open>paragraphs_with ''GPU'' calculating_quantities =
     [''Under the hood, this method makes use of :mod:`quimb.tensor` functionality, which allows `various tensor contraction backends <http://optimized-einsum.readthedocs.io/en/latest/backends.html>`_ to be used (see :func:`~quimb.tensor.tensor_core.set_tensor_linop_backend`). These types of computation are particularly suited to the GPU and therefore if `cupy <https://cupy.chainer.org>`_ is installed it will be used automatically:''] \<and>
   lines_with ''backend='' calculating_quantities =
     [''%timeit qu.logneg_subsys_approx(psi, dims, sysa=0, sysb=2, backend=\'numpy\')'',
      ''%timeit qu.logneg_subsys_approx(psi, dims, sysa=0, sysb=2, backend=\'cupy\')''] \<and>
   lines_with ''progbar'' dynamics_and_evolution =
     [''evo = Evolution(p0, h, compute=calc_t_and_logneg, progbar=True)\<newline>'',
      ''evo = Evolution(p0, h, compute={\'t\': calc_t, \'ln\': calc_logneg}, progbar=True)\<newline>''] \<and>
   words_found scheduling_vocabulary dynamics_and_evolution = [] \<and>
   words_found scheduling_vocabulary calculating_quantities = [] \<and>
   lines_with_ci ''order'' dynamics_and_evolution =
     [''      whether a low or high order adaptive stepping scheme is used, \<newline>''] \<and>
   lines_with_ci ''order'' calculating_quantities = []\<close>
  unfolding scheduling_vocabulary_def
  by (simp only: gpu_paragraph backend_lines progbar_lines order_lines_dyn order_lines_calc
      words_found_absent words_found_Nil simp_thms
      dyn_lacks_schedul dyn_lacks_suspen dyn_lacks_cancel dyn_lacks_interrupt dyn_lacks_preempt
      calc_lacks_schedul calc_lacks_suspen calc_lacks_cancel calc_lacks_interrupt calc_lacks_preempt)

section \<open>The random initial states\<close>

text \<open>
  The initial states of the examples come from the generators \<^verbatim>\<open>rand_ket\<close>,
  \<^verbatim>\<open>rand_product_state\<close> and \<^verbatim>\<open>rand_rho\<close>, and no seed appears anywhere in the notebooks.
  Whether two executions of a cell print the same numbers is decided by these generators
  and by the floating-point arithmetic of the library, neither of which is among the
  sources; nothing is proved of it here.
\<close>

lemma dyn_lacks_seed: "\<not> mentions_ci ''seed'' dynamics_and_evolution"
  unfolding mentions_ci_def text_blocks_dyn dyn_text
  by (simp only: text_eval cong: blocked)

lemma calc_lacks_seed: "\<not> mentions_ci ''seed'' calculating_quantities"
  unfolding mentions_ci_def text_blocks_calc calc_text
  by (simp only: text_eval cong: blocked)

lemma random_states:
  \<open>lines_with ''rand_'' dynamics_and_evolution =
     [''p0 = rand_ket(2**10)\<newline>'', ''p0 = rand_product_state(10)\<newline>''] \<and>
   lines_with ''rand_'' calculating_quantities =
     [''rho = qu.rand_rho(2**12)\<newline>'', ''psi = qu.rand_ket(2**20)\<newline>'']\<close>
  unfolding lines_with_def text_blocks_dyn text_blocks_calc dyn_text calc_text
  by (simp only: text_eval cong: blocked)

lemma no_seed_is_set:
  "words_found [''seed''] dynamics_and_evolution = [] \<and>
   words_found [''seed''] calculating_quantities = []"
  by (simp only: words_found_absent words_found_Nil simp_thms dyn_lacks_seed calc_lacks_seed)

section \<open>Computing on the fly\<close>

lemma update_results_callable:
  "update_results (Callable f) steps (ResultList rs) = ResultList (rs @ at_each_step f steps)"
  by (induction steps arbitrary: rs) (auto simp: at_each_step_def)

lemma append_under_table:
  "append_under k0 v (map (\<lambda>(k, g). (k, V k g)) fs) =
     map (\<lambda>(k, g). (k, if k = k0 then V k g @ [v] else V k g)) fs"
  by (induction fs) (auto simp: append_under_def)

text \<open>
  One step over the dictionary of callables extends the list under every key by the
  values of the callables that stand under that key.
\<close>

lemma fold_append_under:
  "fold (\<lambda>(k, f) rs. append_under k (f t pt) rs) gs (map (\<lambda>(k, g). (k, V k g)) fs) =
     map (\<lambda>(k, g). (k, V k g @ map (\<lambda>(k', f). f t pt) (filter (\<lambda>(k', f). k' = k) gs))) fs"
proof (induction gs arbitrary: V)
  case Nil
  show ?case by simp
next
  case (Cons p gs)
  obtain k0 f0 where p: "p = (k0, f0)" by (cases p)
  have "fold (\<lambda>(k, f) rs. append_under k (f t pt) rs) (p # gs) (map (\<lambda>(k, g). (k, V k g)) fs) =
        fold (\<lambda>(k, f) rs. append_under k (f t pt) rs) gs
          (map (\<lambda>(k, g). (k, if k = k0 then V k g @ [f0 t pt] else V k g)) fs)"
    by (simp add: p append_under_table)
  also have "\<dots> = map (\<lambda>(k, g). (k, (if k = k0 then V k g @ [f0 t pt] else V k g) @
        map (\<lambda>(k', f). f t pt) (filter (\<lambda>(k', f). k' = k) gs))) fs"
    by (rule Cons.IH)
  also have "\<dots> = map (\<lambda>(k, g). (k, V k g @
        map (\<lambda>(k', f). f t pt) (filter (\<lambda>(k', f). k' = k) (p # gs)))) fs"
    by (rule map_cong) (auto simp: p)
  finally show ?case .
qed

lemma filter_key_distinct:
  "distinct (map fst fs) \<Longrightarrow> (k, g) \<in> set fs \<Longrightarrow> filter (\<lambda>(k', f). k' = k) fs = [(k, g)]"
proof (induction fs)
  case Nil
  then show ?case by simp
next
  case (Cons p fs)
  show ?case
  proof (cases "p = (k, g)")
    case True
    have "k \<notin> fst ` set fs" using Cons.prems(1) True by simp
    then have "filter (\<lambda>(k', f). k' = k) fs = []"
      by (force simp: filter_empty_conv)
    then show ?thesis using True by simp
  next
    case False
    then have mem: "(k, g) \<in> set fs" using Cons.prems(2) by simp
    then have "fst p \<noteq> k" using Cons.prems(1) by (cases p) force
    moreover have "filter (\<lambda>(k', f). k' = k) fs = [(k, g)]"
      using Cons.IH Cons.prems(1) mem by simp
    ultimately show ?thesis by (cases p) simp
  qed
qed

lemma step_callback_dict:
  assumes "distinct (map fst fs)"
  shows "step_callback (CallableDict fs) t pt (ResultDict (map (\<lambda>(k, g). (k, V k g)) fs)) =
           ResultDict (map (\<lambda>(k, g). (k, V k g @ [g t pt])) fs)"
proof -
  have "map (\<lambda>(k, g). (k, V k g @ map (\<lambda>(k', f). f t pt) (filter (\<lambda>(k', f). k' = k) fs))) fs =
        map (\<lambda>(k, g). (k, V k g @ [g t pt])) fs"
  proof (rule map_cong)
    fix p assume mem: "p \<in> set fs"
    obtain k g where p: "p = (k, g)" by (cases p)
    have "filter (\<lambda>(k', f). k' = k) fs = [(k, g)]"
      using filter_key_distinct [OF assms] mem p by simp
    then show "(case p of (k, g) \<Rightarrow> (k, V k g @ map (\<lambda>(k', f). f t pt) (filter (\<lambda>(k', f). k' = k) fs))) =
               (case p of (k, g) \<Rightarrow> (k, V k g @ [g t pt]))"
      by (simp add: p)
  qed simp
  then show ?thesis by (simp add: fold_append_under)
qed

lemma update_results_dict:
  assumes "distinct (map fst fs)"
  shows "update_results (CallableDict fs) steps (ResultDict (map (\<lambda>(k, g). (k, V k g)) fs)) =
           ResultDict (map (\<lambda>(k, g). (k, V k g @ at_each_step g steps)) fs)"
proof (induction steps arbitrary: V)
  case Nil
  show ?case by (simp add: at_each_step_def)
next
  case (Cons s steps)
  obtain t pt where s: "s = (t, pt)" by (cases s)
  show ?case
    unfolding s update_results.simps step_callback_dict [OF assms]
    by (simp add: Cons.IH [of "\<lambda>k g. V k g @ [g t pt]"] at_each_step_def)
qed

lemma evolution_results_dict:
  assumes "distinct (map fst fs)"
  shows "evolution_results (CallableDict fs) steps =
           ResultDict (map (\<lambda>(k, g). (k, at_each_step g steps)) fs)"
  using update_results_dict [OF assms, of steps "\<lambda>k g. []"]
  by (simp add: evolution_results_def)

text \<open>
  C8. With one callable, \<^verbatim>\<open>Evolution.results\<close> is the list of the values of the callable,
  one for each time step. With a dict of callables (a dict has each key once) it is a
  dictionary with the same keys, in which every key holds the list of the values that
  the callable of that key took at each time step.
\<close>

theorem compute_results:
  assumes "distinct (map fst fs)"
  shows "evolution_results (Callable f) steps = ResultList (at_each_step f steps) \<and>
         length (at_each_step f steps) = length steps \<and>
         result_keys (evolution_results (CallableDict fs) steps) = map fst fs \<and>
         (\<forall>k g. (k, g) \<in> set fs \<longrightarrow>
            result_under (evolution_results (CallableDict fs) steps) k =
              Some (at_each_step g steps))"
proof -
  have "evolution_results (Callable f) steps = ResultList (at_each_step f steps)"
    using update_results_callable [of f steps "[]"] by (simp add: evolution_results_def)
  moreover have "length (at_each_step f steps) = length steps"
    by (simp add: at_each_step_def)
  moreover have "result_keys (evolution_results (CallableDict fs) steps) = map fst fs"
    by (simp add: evolution_results_dict [OF assms] comp_def case_prod_unfold)
  moreover have "result_under (evolution_results (CallableDict fs) steps) k =
      Some (at_each_step g steps)" if mem: "(k, g) \<in> set fs" for k g
  proof -
    have "map_of (map (\<lambda>(k, g). (k, at_each_step g steps)) fs) k = Some (at_each_step g steps)"
    proof (rule map_of_is_SomeI)
      show "distinct (map fst (map (\<lambda>(k, g). (k, at_each_step g steps)) fs))"
        using assms by (simp add: comp_def case_prod_unfold)
      show "(k, at_each_step g steps) \<in> set (map (\<lambda>(k, g). (k, at_each_step g steps)) fs)"
        using mem by force
    qed
    then show ?thesis
      by (simp add: evolution_results_dict [OF assms])
  qed
  ultimately show ?thesis by blast
qed

text \<open>
  The two examples of the notebook, on two steps: the callable \<^verbatim>\<open>calc_t_and_logneg\<close>, and
  the dict \<^verbatim>\<open>{'t': calc_t, 'ln': calc_logneg}\<close>. The states are numbers here and the
  library function takes the state to its successor.
\<close>

theorem compute_results_witness:
  "distinct (map fst [(''t'', calc_t), (''ln'', calc_logneg (\<lambda>pt ds a b. pt + 1))]) \<and>
   (''ln'', calc_logneg (\<lambda>pt ds a b. pt + 1)) \<in>
     set [(''t'', calc_t), (''ln'', calc_logneg (\<lambda>pt ds a b. pt + 1))] \<and>
   evolution_results (Callable (calc_t_and_logneg (\<lambda>pt ds a b. pt + 1))) [(0, 5), (1, 7 :: int)] =
     ResultList [(0 :: int, 6), (1, 8)] \<and>
   result_keys (evolution_results
     (CallableDict [(''t'', calc_t), (''ln'', calc_logneg (\<lambda>pt ds a b. pt + 1))])
     [(0 :: int, 5), (1, 7 :: int)]) = [''t'', ''ln''] \<and>
   result_under (evolution_results
     (CallableDict [(''t'', calc_t), (''ln'', calc_logneg (\<lambda>pt ds a b. pt + 1))])
     [(0 :: int, 5), (1, 7 :: int)]) ''ln'' = Some [6, 8]"
proof -
  have d: "distinct (map fst [(''t'', calc_t :: int \<Rightarrow> int \<Rightarrow> int),
      (''ln'', calc_logneg (\<lambda>pt ds a b. pt + 1))])"
    by simp
  show ?thesis
    using d compute_results [OF d, of "calc_t_and_logneg (\<lambda>pt ds a b. pt + 1)"
        "[(0 :: int, 5), (1, 7 :: int)]"]
    by (simp add: at_each_step_def calc_t_and_logneg_def calc_logneg_def)
qed

text \<open>
  The two examples of the notebook in general. With the callable \<^verbatim>\<open>calc_t_and_logneg\<close>,
  \<^verbatim>\<open>ts\<close> are the times of the steps and \<^verbatim>\<open>lns\<close> the values of the library function
  on their states (when a step was visited; the unpacking fails otherwise); with the dict, the times stand under \<^verbatim>\<open>'t'\<close> and the values under
  \<^verbatim>\<open>'ln'\<close>.
\<close>

lemma example_callable:
  "evolution_results (Callable (calc_t_and_logneg L)) steps = ResultList rs \<Longrightarrow>
     zip_star rs =
       (if steps = [] then Inl ValueError
        else Inr (map fst steps, map (\<lambda>(t, pt). L pt dims sysa sysb) steps))"
  using update_results_callable [of "calc_t_and_logneg L" steps "[]"]
  by (cases steps)
    (auto simp: evolution_results_def at_each_step_def calc_t_and_logneg_def
      case_prod_unfold comp_def)

lemma example_dict:
  "evolution_results (CallableDict [(''t'', calc_t), (''ln'', calc_logneg L)]) steps =
     ResultDict [(''t'', map fst steps),
                 (''ln'', map (\<lambda>(t, pt). L pt (replicate 10 2) (Site 0) (Site 1)) steps)]"
  by (simp add: evolution_results_dict at_each_step_def calc_t_def calc_logneg_def
      case_prod_unfold)

text \<open>
  What the notebook recorded agrees with this. The call with the dict and its recorded
  result both have the keys \<^verbatim>\<open>'t'\<close> and \<^verbatim>\<open>'ln'\<close>, and the times recorded under \<^verbatim>\<open>'t'\<close> are
  the five times that the single callable recorded before (the output \<^verbatim>\<open>ts\<close>).
\<close>

lemma recorded_results_agree:
  \<open>collect (values_after ''('' CHR '')'') [dyn_8_out] =
     [''0.0, 0.26290682760247974, 0.5233369775481265, 0.7900587131899766, 1.0''] \<and>
   collect (values_after ''{\'t\': ['' CHR '']'') [dyn_12_out] =
     [''0.0, 0.26290682760247974, 0.5233369775481265, 0.7900587131899766, 1.0''] \<and>
   collect (values_after ''compute={'' CHR ''}'') [dyn_11_src] =
     [''\'t\': calc_t, \'ln\': calc_logneg''] \<and>
   collect (values_after '' \'ln\': ['' CHR '']'') [dyn_12_out] =
     [''0.0, 0.08526629069718968, 0.06419361844053166, 0.0, 0.0'']\<close>
  unfolding dyn_text
  by (simp only: text_eval cong: blocked)

section \<open>The states a method accepts, and the integrator\<close>

lemma supported_states_Integrate: "supported_states Integrate = [Pure, Mixed]"
  unfolding supported_states_def method_doc_def method_name.simps integrate_paragraph
  by (simp only: text_eval states_named_def cong: blocked)

lemma supported_states_Solve: "supported_states Solve = [Pure, Mixed]"
  unfolding supported_states_def method_doc_def method_name.simps solve_paragraph
  by (simp only: text_eval states_named_def cong: blocked)

lemma supported_states_Expm: "supported_states Expm = [Pure]"
  unfolding supported_states_def method_doc_def method_name.simps expm_paragraph
  by (simp only: text_eval states_named_def cong: blocked)

text \<open>
  C9. The methods \<^verbatim>\<open>integrate\<close> and \<^verbatim>\<open>solve\<close> support pure and mixed states, the method
  \<^verbatim>\<open>expm\<close> pure states only.
\<close>

theorem states_supported_by_the_methods:
  "(\<forall>k. supports Integrate k) \<and> (\<forall>k. supports Solve k) \<and> (\<forall>k. supports Expm k = (k = Pure))"
proof -
  have "supports Integrate k" for k
    by (cases k) (simp_all add: supports_def supported_states_Integrate)
  moreover have "supports Solve k" for k
    by (cases k) (simp_all add: supports_def supported_states_Solve)
  moreover have "supports Expm k = (k = Pure)" for k
    by (cases k) (simp_all add: supports_def supported_states_Expm)
  ultimately show ?thesis by simp
qed






end
